theory Spec2Isabelle
  imports Complex_Main
begin

section \<open>Python values\<close>

text \<open>
  The tracer stores arbitrary Python objects and the tree visualizer inspects them with
  \<^verbatim>\<open>hasattr\<close>, \<^verbatim>\<open>getattr\<close>, \<^verbatim>\<open>isinstance\<close>, truth tests and \<^verbatim>\<open>str\<close>. The values it can meet
  are modelled by one datatype: \<open>None\<close>, booleans, integers, strings, lists, mappings with
  string keys (an association list, first binding wins) and instances of user classes.
  An instance carries the text that \<^verbatim>\<open>str\<close> returns for it (for a class without
  \<^verbatim>\<open>__str__\<close> this is the default \<^verbatim>\<open><... object at 0x...>\<close> text) and its attributes.
  Values are finite trees, so cyclic object graphs are outside the model.
\<close>

datatype pyval =
    PNone
  | PBool bool
  | PInt int
  | PStr string
  | PList "pyval list"
  | PDict "(string \<times> pyval) list"
  | PObj string "(string \<times> pyval) list"

datatype error =
    AttributeError
  | TypeError
  | KeyError
  | IndexError
  | UnboundLocalError
  | InvalidStep

subsection \<open>Decimal text of integers\<close>

definition digit_char :: "nat \<Rightarrow> char" where
  "digit_char d = char_of (48 + d)"

function str_nat :: "nat \<Rightarrow> string" where
  "str_nat n = (if n < 10 then [digit_char n] else str_nat (n div 10) @ [digit_char (n mod 10)])"
  by pat_completeness auto
termination
  by (relation "measure id") auto

declare str_nat.simps [simp del]

definition str_int :: "int \<Rightarrow> string" where
  "str_int i = (if i < 0 then CHR ''-'' # str_nat (nat (- i)) else str_nat (nat i))"

subsection \<open>\<^verbatim>\<open>str\<close> and \<^verbatim>\<open>repr\<close>\<close>

definition hex_digit :: "nat \<Rightarrow> char" where
  "hex_digit d = (if d < 10 then char_of (48 + d) else char_of (87 + d))"

text \<open>One character inside a quoted \<^verbatim>\<open>repr\<close>; \<open>q\<close> is the quote in use.\<close>

definition repr_char :: "char \<Rightarrow> char \<Rightarrow> string" where
  "repr_char q c =
     (if c = q \<or> c = CHR 0x5C then [CHR 0x5C, c]
      else if c = CHR 0x0A then [CHR 0x5C, CHR ''n'']
      else if c = CHR 0x0D then [CHR 0x5C, CHR ''r'']
      else if c = CHR 0x09 then [CHR 0x5C, CHR ''t'']
      else if of_char c < (32::nat) \<or> of_char c = (127::nat)
        then [CHR 0x5C, CHR ''x'', hex_digit (of_char c div 16), hex_digit (of_char c mod 16)]
      else [c])"

definition repr_str :: "string \<Rightarrow> string" where
  "repr_str s =
     (let q = (if CHR 0x27 \<in> set s \<and> CHR 0x22 \<notin> set s then CHR 0x22 else CHR 0x27)
      in [q] @ concat (map (repr_char q) s) @ [q])"

fun intersperse :: "string \<Rightarrow> string list \<Rightarrow> string" where
  "intersperse sep [] = []"
| "intersperse sep [x] = x"
| "intersperse sep (x # y # ys) = x @ sep @ intersperse sep (y # ys)"

fun py_repr :: "pyval \<Rightarrow> string" where
  "py_repr PNone = ''None''"
| "py_repr (PBool b) = (if b then ''True'' else ''False'')"
| "py_repr (PInt i) = str_int i"
| "py_repr (PStr s) = repr_str s"
| "py_repr (PList xs) = ''['' @ intersperse '', '' (map py_repr xs) @ '']''"
| "py_repr (PDict kvs) =
     ''{'' @ intersperse '', '' (map (\<lambda>(k, v). repr_str k @ '': '' @ py_repr v) kvs) @ ''}''"
| "py_repr (PObj s attrs) = s"

fun py_str :: "pyval \<Rightarrow> string" where
  "py_str (PStr s) = s"
| "py_str v = py_repr v"

subsection \<open>Truth value, attributes, iteration\<close>

text \<open>
  The truth test of \<^verbatim>\<open>if x:\<close>. An instance of a user class is true; classes that define
  \<^verbatim>\<open>__bool__\<close> or \<^verbatim>\<open>__len__\<close> are outside the model.
\<close>

fun py_truthy :: "pyval \<Rightarrow> bool" where
  "py_truthy PNone = False"
| "py_truthy (PBool b) = b"
| "py_truthy (PInt i) = (i \<noteq> 0)"
| "py_truthy (PStr s) = (s \<noteq> [])"
| "py_truthy (PList xs) = (xs \<noteq> [])"
| "py_truthy (PDict kvs) = (kvs \<noteq> [])"
| "py_truthy (PObj s attrs) = True"

text \<open>
  \<open>py_attr v name\<close> is \<open>Some x\<close> when \<^verbatim>\<open>hasattr(v, name)\<close> holds, with \<open>x\<close> the attribute.
  Only the names \<^verbatim>\<open>left\<close>, \<^verbatim>\<open>right\<close>, \<^verbatim>\<open>children\<close>, \<^verbatim>\<open>val\<close> and \<^verbatim>\<open>value\<close> are ever asked for,
  and none of the built-in types has an attribute of such a name.
\<close>

fun py_attr :: "pyval \<Rightarrow> string \<Rightarrow> pyval option" where
  "py_attr (PObj s attrs) name = map_of attrs name"
| "py_attr v name = None"

definition py_hasattr :: "pyval \<Rightarrow> string \<Rightarrow> bool" where
  "py_hasattr v name = (py_attr v name \<noteq> None)"

text \<open>\<^verbatim>\<open>getattr(v, name, default)\<close>.\<close>

definition py_getattr :: "pyval \<Rightarrow> string \<Rightarrow> pyval \<Rightarrow> pyval" where
  "py_getattr v name dflt = (case py_attr v name of Some x \<Rightarrow> x | None \<Rightarrow> dflt)"

text \<open>
  The items a \<^verbatim>\<open>for\<close> loop draws from a value: the elements of a list, the keys of a
  mapping, the characters of a string; anything else is not iterable.
\<close>

fun py_iter :: "pyval \<Rightarrow> error + pyval list" where
  "py_iter (PList xs) = Inr xs"
| "py_iter (PDict kvs) = Inr (map (\<lambda>kv. PStr (fst kv)) kvs)"
| "py_iter (PStr s) = Inr (map (\<lambda>c. PStr [c]) s)"
| "py_iter v = Inl TypeError"

text \<open>A \<^verbatim>\<open>for\<close> loop whose body updates a state and may raise.\<close>

fun for_each :: "('a \<Rightarrow> 's \<Rightarrow> error + 's) \<Rightarrow> 'a list \<Rightarrow> 's \<Rightarrow> error + 's" where
  "for_each body [] s = Inr s"
| "for_each body (x # xs) s =
     (case body x s of Inl e \<Rightarrow> Inl e | Inr s' \<Rightarrow> for_each body xs s')"

lemma for_each_cong [fundef_cong]:
  assumes "xs = ys" and "s = t"
    and "\<And>x u. x \<in> set ys \<Longrightarrow> f x u = g x u"
  shows "for_each f xs s = for_each g ys t"
  using assms(3) unfolding assms(1,2)
  by (induction ys arbitrary: t) (auto split: sum.splits)

section \<open>Graphs (\<^verbatim>\<open>networkx\<close>)\<close>

text \<open>
  A graph object, with nodes of any hashable type. The builder of the tree visualizer
  numbers its nodes with naturals and only uses \<^verbatim>\<open>add_node(id, label=...)\<close>, \<^verbatim>\<open>add_edge(u, v)\<close> and
  \<^verbatim>\<open>len(G.nodes)\<close>. Nodes are kept in insertion order with their optional \<^verbatim>\<open>label\<close>
  attribute; edges are kept in the order they were added, without duplicates.
\<close>

record 'n nxgraph =
  nodes :: "('n \<times> string option) list"
  edges :: "('n \<times> 'n) list"

type_synonym digraph = "nat nxgraph"

definition empty_graph :: digraph where
  "empty_graph = \<lparr>nodes = [], edges = []\<rparr>"

definition node_ids :: "'n nxgraph \<Rightarrow> 'n list" where
  "node_ids G = map fst (nodes G)"

definition add_node :: "digraph \<Rightarrow> nat \<Rightarrow> string \<Rightarrow> digraph" where
  "add_node G n label =
     (if n \<in> set (node_ids G)
      then G\<lparr>nodes := map (\<lambda>(m, l). if m = n then (m, Some label) else (m, l)) (nodes G)\<rparr>
      else G\<lparr>nodes := nodes G @ [(n, Some label)]\<rparr>)"

definition touch_node :: "digraph \<Rightarrow> nat \<Rightarrow> digraph" where
  "touch_node G n = (if n \<in> set (node_ids G) then G else G\<lparr>nodes := nodes G @ [(n, None)]\<rparr>)"

definition add_edge :: "digraph \<Rightarrow> nat \<Rightarrow> nat \<Rightarrow> digraph" where
  "add_edge G u v =
     (let G1 = touch_node (touch_node G u) v
      in if (u, v) \<in> set (edges G1) then G1 else G1\<lparr>edges := edges G1 @ [(u, v)]\<rparr>)"

text \<open>\<^verbatim>\<open>len(G.nodes)\<close>\<close>

definition num_nodes :: "'n nxgraph \<Rightarrow> nat" where
  "num_nodes G = length (nodes G)"

text \<open>\<^verbatim>\<open>G.nodes[n].get('label', '')\<close> for a node of the graph.\<close>

definition label_of :: "'n nxgraph \<Rightarrow> 'n \<Rightarrow> string" where
  "label_of G n = (case map_of (nodes G) n of Some (Some l) \<Rightarrow> l | _ \<Rightarrow> [])"

section \<open>\<^verbatim>\<open>TreeVisualizer._tree_to_networkx\<close>\<close>

text \<open>The label of a node in the two attribute-based branches.\<close>

definition attr_label :: "pyval \<Rightarrow> string" where
  "attr_label node = py_str (py_getattr node ''val'' (py_getattr node ''value'' node))"

lemma size_map_of:
  "map_of kvs k = Some v \<Longrightarrow> size v < Suc (size_list (size_prod (\<lambda>_. 0) size) kvs)"
  by (induction kvs) (auto split: if_splits)

lemma size_py_attr: "py_attr node name = Some v \<Longrightarrow> size v < size node"
  by (cases node) (auto dest: size_map_of)

lemma size_py_iter: "py_iter cs = Inr xs \<Longrightarrow> x \<in> set xs \<Longrightarrow> size x \<le> size cs"
  by (cases cs) (auto dest: size_list_estimation' [where f = size and y = "size x", OF _ order_refl])

text \<open>First branch: nodes with \<^verbatim>\<open>left\<close> and \<^verbatim>\<open>right\<close>.\<close>

function add_nodes_binary :: "pyval \<Rightarrow> nat \<Rightarrow> digraph \<Rightarrow> error + digraph" where
  "add_nodes_binary node node_id G =
     (if node = PNone then Inr G
      else
        let G1 = add_node G node_id (attr_label node) in
        case py_attr node ''left'' of
          None \<Rightarrow> Inl AttributeError
        | Some l \<Rightarrow>
            (case (if py_truthy l
                   then add_nodes_binary l (num_nodes G1) (add_edge G1 node_id (num_nodes G1))
                   else Inr G1) of
               Inl e \<Rightarrow> Inl e
             | Inr G2 \<Rightarrow>
                 (case py_attr node ''right'' of
                    None \<Rightarrow> Inl AttributeError
                  | Some r \<Rightarrow>
                      if py_truthy r
                      then add_nodes_binary r (num_nodes G2) (add_edge G2 node_id (num_nodes G2))
                      else Inr G2)))"
  by pat_completeness auto
termination
  by (relation "measure (\<lambda>(node, node_id, G). size node)") (auto dest: size_py_attr)

text \<open>Second branch: nodes with a \<^verbatim>\<open>children\<close> attribute.\<close>

function add_nodes_children :: "pyval \<Rightarrow> nat \<Rightarrow> digraph \<Rightarrow> error + digraph" where
  "add_nodes_children node node_id G =
     (if node = PNone then Inr G
      else
        let G1 = add_node G node_id (attr_label node) in
        case py_attr node ''children'' of
          None \<Rightarrow> Inl AttributeError
        | Some cs \<Rightarrow>
            if py_truthy cs
            then (case py_iter cs of
                    Inl e \<Rightarrow> Inl e
                  | Inr xs \<Rightarrow>
                      for_each
                        (\<lambda>child H.
                           if py_truthy child
                           then add_nodes_children child (num_nodes H)
                                  (add_edge H node_id (num_nodes H))
                           else Inr H)
                        xs G1)
            else Inr G1)"
  by pat_completeness auto
termination
proof (relation "measure (\<lambda>(node, node_id, G). size node)", goal_cases)
  case 1
  show ?case by simp
next
  case (2 node node_id G G1 cs xs child H)
  from 2 have "size child \<le> size cs" by (auto dest: size_py_iter)
  moreover from 2 have "size cs < size node" by (auto dest: size_py_attr)
  ultimately show ?case by simp
qed

text \<open>\<^verbatim>\<open>d.get(key, default)\<close> on the items of a mapping.\<close>

definition dict_get :: "(string \<times> pyval) list \<Rightarrow> string \<Rightarrow> pyval \<Rightarrow> pyval" where
  "dict_get kvs key dflt = (case map_of kvs key of Some v \<Rightarrow> v | None \<Rightarrow> dflt)"

lemma size_dict_get_iter:
  assumes "py_iter (dict_get kvs ''children'' (PList [])) = Inr xs" and "x \<in> set xs"
  shows "size x < size (PDict kvs)"
proof (cases "map_of kvs ''children''")
  case None
  with assms show ?thesis by (simp add: dict_get_def)
next
  case (Some c)
  with assms have "py_iter c = Inr xs" by (simp add: dict_get_def)
  from size_py_iter [OF this assms(2)] size_map_of [OF Some] show ?thesis by simp
qed

text \<open>Third branch: mappings with a \<^verbatim>\<open>value\<close> entry. Only a mapping has \<^verbatim>\<open>get\<close>.\<close>

function add_nodes_dict :: "pyval \<Rightarrow> nat \<Rightarrow> digraph \<Rightarrow> error + digraph" where
  "add_nodes_dict node node_id G =
     (if node = PNone then Inr G
      else
        case node of
          PDict kvs \<Rightarrow>
            let G1 = add_node G node_id (py_str (dict_get kvs ''value'' (PStr [])));
                children = dict_get kvs ''children'' (PList [])
            in (case py_iter children of
                  Inl e \<Rightarrow> Inl e
                | Inr xs \<Rightarrow>
                    for_each
                      (\<lambda>child H.
                         if py_truthy child
                         then add_nodes_dict child (num_nodes H)
                                (add_edge H node_id (num_nodes H))
                         else Inr H)
                      xs G1)
        | _ \<Rightarrow> Inl AttributeError)"
  by pat_completeness auto
termination
proof (relation "measure (\<lambda>(node, node_id, G). size node)", goal_cases)
  case 1
  show ?case by simp
next
  case (2 node node_id G kvs G1 children xs child H)
  then have "size child < size (PDict kvs)"
    by (intro size_dict_get_iter [of kvs xs]) simp_all
  with 2 show ?case by simp
qed

declare add_nodes_binary.simps [simp del]
declare add_nodes_children.simps [simp del]
declare add_nodes_dict.simps [simp del]

definition is_dict :: "pyval \<Rightarrow> bool" where
  "is_dict v = (case v of PDict kvs \<Rightarrow> True | _ \<Rightarrow> False)"

text \<open>\<^verbatim>\<open>key in d\<close> for a value already known to be a mapping.\<close>

definition dict_has :: "pyval \<Rightarrow> string \<Rightarrow> bool" where
  "dict_has v key = (case v of PDict kvs \<Rightarrow> key \<in> set (map fst kvs) | _ \<Rightarrow> False)"

definition tree_to_networkx :: "pyval \<Rightarrow> error + digraph" where
  "tree_to_networkx tree_node =
     (if py_hasattr tree_node ''left'' \<and> py_hasattr tree_node ''right''
      then add_nodes_binary tree_node 0 empty_graph
      else if py_hasattr tree_node ''children''
      then add_nodes_children tree_node 0 empty_graph
      else if is_dict tree_node \<and> dict_has tree_node ''value''
      then add_nodes_dict tree_node 0 empty_graph
      else Inr empty_graph)"

section \<open>The trace store\<close>

text \<open>
  The metadata of a step. A field is \<open>None\<close> when the key is absent from the mapping.
  Fields the visualizers do not read are carried by the record extension.
\<close>

record 'n meta =
  step :: "nat option"
  description :: "string option"
  highlight_nodes :: "'n list option"

definition empty_meta :: "'n meta" where
  "empty_meta = \<lparr>step = None, description = None, highlight_nodes = None\<rparr>"

text \<open>
  The tracer object: the visualizers read its \<^verbatim>\<open>snapshots\<close> and \<^verbatim>\<open>metadata\<close> lists
  directly and call \<^verbatim>\<open>get_snapshot\<close>.
\<close>

record ('s, 'n) tracer =
  snapshots :: "'s list"
  metadata :: "'n meta list"

definition new_tracer :: "('s, 'n) tracer" where
  "new_tracer = \<lparr>snapshots = [], metadata = []\<rparr>"

text \<open>
  Modelled from the spec: \<^verbatim>\<open>DataStructureTracer.capture\<close> (the tracer module is not among
  the sources). It stores a deep structural copy of the state and merges the caller's
  metadata with the step index assigned by the store, the first index being 0. The
  argument \<open>state\<close> is the value of the live structure at the moment of the call.
\<close>

definition capture :: "('s, 'n) tracer \<Rightarrow> 's \<Rightarrow> 'n meta \<Rightarrow> ('s, 'n) tracer" where
  "capture tr state md =
     tr\<lparr>snapshots := snapshots tr @ [state],
        metadata := metadata tr @ [md\<lparr>step := Some (length (snapshots tr))\<rparr>]\<rparr>"

text \<open>
  Modelled from the spec: \<^verbatim>\<open>DataStructureTracer.get_snapshot\<close>. Step \<open>-1\<close> is the latest
  snapshot; an empty store answers with the pair of a null state and empty metadata; any
  other step outside the stored range fails.
\<close>

definition get_snapshot :: "('s, 'n) tracer \<Rightarrow> int \<Rightarrow> error + ('s option \<times> 'n meta)" where
  "get_snapshot tr i =
     (if snapshots tr = [] then Inr (None, empty_meta)
      else if i = - 1 then Inr (Some (last (snapshots tr)), last (metadata tr))
      else if 0 \<le> i \<and> i < int (length (snapshots tr))
      then Inr (Some (snapshots tr ! nat i), metadata tr ! nat i)
      else Inl InvalidStep)"

subsection \<open>Live structures and capture\<close>

text \<open>
  Producer code holds live structures at addresses of a heap, mutates them in place and
  passes a reference to \<^verbatim>\<open>capture\<close>. A mutation is any function on heaps.
\<close>

type_synonym 's heap = "nat \<Rightarrow> 's"

datatype ('s, 'n) action =
    Capture nat "'n meta"
  | Mutate "'s heap \<Rightarrow> 's heap"

fun perform :: "('s, 'n) action \<Rightarrow> 's heap \<times> ('s, 'n) tracer \<Rightarrow> 's heap \<times> ('s, 'n) tracer" where
  "perform (Capture a md) (h, tr) = (h, capture tr (h a) md)"
| "perform (Mutate f) (h, tr) = (f h, tr)"

fun run :: "('s, 'n) action list \<Rightarrow> 's heap \<times> ('s, 'n) tracer \<Rightarrow> 's heap \<times> ('s, 'n) tracer" where
  "run [] st = st"
| "run (a # as) st = run as (perform a st)"

fun is_capture :: "('s, 'n) action \<Rightarrow> bool" where
  "is_capture (Capture a md) = True"
| "is_capture (Mutate f) = False"

definition captures :: "('s, 'n) action list \<Rightarrow> nat" where
  "captures as = length (filter is_capture as)"

section \<open>Frames\<close>

text \<open>
  What a visualizer hands to the drawing backend. Lengths are the exact rational values
  of the source's arithmetic; figure sizes, text alignment, fonts, line widths and
  transparency are left out.
\<close>

datatype shape =
    Rectangle rat rat rat rat string
  | Outline rat rat rat rat string
  | Text rat rat string

text \<open>The arguments of \<^verbatim>\<open>nx.draw\<close> and \<^verbatim>\<open>nx.draw_networkx_labels\<close>.\<close>

record ('n, 'p) nxdraw =
  pos :: 'p
  node_color :: "string list"
  edge_color :: "string list"
  node_labels :: "('n \<times> string) list"

record ('n, 'p, 'm) frame =
  shapes :: "shape list"
  drawing :: "('n, 'p) nxdraw option"
  title :: "string option"
  xlim :: "(rat \<times> rat) option"
  ylim :: "(rat \<times> rat) option"
  code_panel :: "'m option"

definition blank :: "('n, 'p, 'm) frame" where
  "blank = \<lparr>shapes = [], drawing = None, title = None, xlim = None, ylim = None,
            code_panel = None\<rparr>"

text \<open>
  A call either produces something or prints a message and returns \<^verbatim>\<open>None\<close>.
\<close>

datatype 'a outcome = Printed string | Shown 'a

record animation =
  frames :: nat
  interval :: nat
  repeat :: bool

subsection \<open>Titles\<close>

text \<open>\<^verbatim>\<open>metadata['step']\<close>\<close>

definition step_of :: "'n meta \<Rightarrow> error + nat" where
  "step_of md = (case step md of None \<Rightarrow> Inl KeyError | Some n \<Rightarrow> Inr n)"

text \<open>
  The title block of every animation frame but the stack's:
  \<^verbatim>\<open>if metadata.get('description'): "Step {step}: {description}" else: "Step {step}"\<close>.
  An absent and an empty description both fail the truth test.
\<close>

definition frame_title :: "'n meta \<Rightarrow> error + string" where
  "frame_title md =
     (case step_of md of
        Inl e \<Rightarrow> Inl e
      | Inr n \<Rightarrow>
          (case description md of
             None \<Rightarrow> Inr (''Step '' @ str_nat n)
           | Some d \<Rightarrow>
               if d \<noteq> [] then Inr (''Step '' @ str_nat n @ '': '' @ d)
               else Inr (''Step '' @ str_nat n)))"

text \<open>The title block of every \<^verbatim>\<open>display_snapshot\<close>: \<^verbatim>\<open>if title: ... elif ... else ...\<close>.\<close>

definition snapshot_title :: "string option \<Rightarrow> 'n meta \<Rightarrow> error + string" where
  "snapshot_title t md =
     (case t of
        None \<Rightarrow> frame_title md
      | Some s \<Rightarrow> if s \<noteq> [] then Inr s else frame_title md)"

text \<open>
  The title of a stack animation frame:
  \<^verbatim>\<open>f"Step {metadata['step']}: {metadata.get('description', '')}"\<close>.
\<close>

definition stack_frame_title :: "'n meta \<Rightarrow> error + string" where
  "stack_frame_title md =
     (case step_of md of
        Inl e \<Rightarrow> Inl e
      | Inr n \<Rightarrow>
          Inr (''Step '' @ str_nat n @ '': '' @ (case description md of None \<Rightarrow> [] | Some d \<Rightarrow> d)))"

text \<open>\<^verbatim>\<open>xs and x in xs\<close> for an optional list argument.\<close>

definition given_and_in :: "'a list option \<Rightarrow> 'a \<Rightarrow> bool" where
  "given_and_in xs x = (case xs of None \<Rightarrow> False | Some ys \<Rightarrow> ys \<noteq> [] \<and> x \<in> set ys)"

text \<open>\<^verbatim>\<open>self.tracer.snapshots[frame]\<close> and \<^verbatim>\<open>self.tracer.metadata[frame]\<close>.\<close>

definition frame_data :: "('s, 'n) tracer \<Rightarrow> nat \<Rightarrow> error + ('s \<times> 'n meta)" where
  "frame_data tr k =
     (if k < length (snapshots tr) \<and> k < length (metadata tr)
      then Inr (snapshots tr ! k, metadata tr ! k)
      else Inl IndexError)"

text \<open>
  The common start and end of every \<^verbatim>\<open>create_animation\<close>: nothing to animate when the
  store is empty, else a \<^verbatim>\<open>FuncAnimation\<close> over one frame per stored snapshot.
\<close>

definition create_animation :: "('s, 'n) tracer \<Rightarrow> nat \<Rightarrow> bool \<Rightarrow> animation outcome" where
  "create_animation tr ival rep =
     (if snapshots tr = [] then Printed ''No snapshots available''
      else Shown \<lparr>frames = length (snapshots tr), interval = ival, repeat = rep\<rparr>)"

section \<open>\<^verbatim>\<open>ListVisualizer\<close>\<close>

text \<open>
  The elements of a list, stack or queue are of any type; \<open>str\<close> is Python's \<^verbatim>\<open>str\<close> on
  that type and the membership tests use its equality.
\<close>

definition list_cell ::
  "('a \<Rightarrow> string) \<Rightarrow> int list option \<Rightarrow> 'a list option \<Rightarrow> bool \<Rightarrow> rat \<Rightarrow> nat \<Rightarrow> 'a \<Rightarrow> shape list" where
  "list_cell str highlight_indices highlight_values show_indices cell_width i val =
     (let c0 = ''#f0f0f0'';
          c1 = (if given_and_in highlight_indices (int i) then ''#ffcf75'' else c0);
          cell_color = (if given_and_in highlight_values val then ''#8dc7f3'' else c1)
      in [Rectangle (of_nat i * cell_width) 0 cell_width (1/2) cell_color,
          Text ((of_nat i + 1/2) * cell_width) (1/4) (str val)]
         @ (if show_indices then [Text ((of_nat i + 1/2) * cell_width) (- (1/10)) (str_nat i)]
            else []))"

definition range_outline :: "nat \<Rightarrow> rat \<Rightarrow> int \<times> int \<Rightarrow> shape list" where
  "range_outline list_len cell_width r =
     (case r of (start, end) \<Rightarrow>
        if 0 \<le> start \<and> start < int list_len \<and> 0 \<le> end \<and> end < int list_len
        then [Outline (of_int start * cell_width) 0 (of_int (end - start + 1) * cell_width)
                (1/2) ''red'']
        else [])"

text \<open>The loop over \<^verbatim>\<open>enumerate(data)\<close>.\<close>

definition list_cells ::
  "('a \<Rightarrow> string) \<Rightarrow> int list option \<Rightarrow> 'a list option \<Rightarrow> bool \<Rightarrow> 'a list \<Rightarrow> shape list" where
  "list_cells str highlight_indices highlight_values show_indices data =
     (let list_len = length data;
          cell_width = 1 / of_nat (max list_len 1)
      in concat (map (\<lambda>(i, val).
                   list_cell str highlight_indices highlight_values show_indices cell_width i val)
                   (enumerate 0 data)))"

text \<open>The loop over \<^verbatim>\<open>highlight_range\<close>, skipped when the argument is \<^verbatim>\<open>None\<close> or empty.\<close>

definition range_outlines :: "(int \<times> int) list option \<Rightarrow> nat \<Rightarrow> shape list" where
  "range_outlines highlight_range list_len =
     (case highlight_range of
        None \<Rightarrow> []
      | Some rs \<Rightarrow>
          let cell_width = 1 / of_nat (max list_len 1)
          in concat (map (range_outline list_len cell_width) rs))"

definition list_display_snapshot ::
  "('a \<Rightarrow> string) \<Rightarrow> ('a list, 'n) tracer \<Rightarrow> int \<Rightarrow> int list option \<Rightarrow> 'a list option \<Rightarrow>
   (int \<times> int) list option \<Rightarrow> string option \<Rightarrow> bool \<Rightarrow>
   error + (unit, unit, 'n meta) frame outcome" where
  "list_display_snapshot str tr stp highlight_indices highlight_values highlight_range ttl
     show_indices =
     (case get_snapshot tr stp of
        Inl e \<Rightarrow> Inl e
      | Inr (None, md) \<Rightarrow> Inr (Printed ''No data available'')
      | Inr (Some data, md) \<Rightarrow>
          let cells = list_cells str highlight_indices highlight_values show_indices data;
              ranges = range_outlines highlight_range (length data)
          in (case snapshot_title ttl md of
                Inl e \<Rightarrow> Inl e
              | Inr t \<Rightarrow>
                  Inr (Shown (blank\<lparr>shapes := cells @ ranges, title := Some t,
                                     xlim := Some (0, 1), ylim := Some (- (1/5), 7/10)\<rparr>))))"

definition list_create_animation ::
  "('a list, 'n) tracer \<Rightarrow> nat \<Rightarrow> bool \<Rightarrow> bool \<Rightarrow> animation outcome" where
  "list_create_animation tr ival rep show_indices = create_animation tr ival rep"

definition list_update ::
  "('a \<Rightarrow> string) \<Rightarrow> ('a list, 'n) tracer \<Rightarrow> bool \<Rightarrow> nat \<Rightarrow> error + (unit, unit, 'n meta) frame" where
  "list_update str tr show_indices k =
     (case frame_data tr k of
        Inl e \<Rightarrow> Inl e
      | Inr (data, md) \<Rightarrow>
          (case frame_title md of
             Inl e \<Rightarrow> Inl e
           | Inr t \<Rightarrow>
               Inr (blank\<lparr>shapes := list_cells str None None show_indices data, title := Some t,
                           xlim := Some (0, 1), ylim := Some (- (1/5), 7/10)\<rparr>)))"

section \<open>\<^verbatim>\<open>StackVisualizer\<close>\<close>

definition stack_cell :: "('a \<Rightarrow> string) \<Rightarrow> rat \<Rightarrow> nat \<times> 'a \<Rightarrow> shape list" where
  "stack_cell str element_height p =
     (case p of (i, x) \<Rightarrow>
        let y = of_nat i * element_height
        in [Rectangle (1/10) y (4/5) element_height ''lightblue'',
            Text (1/2) (y + element_height / 2) (str x)])"

definition stack_top :: "nat \<Rightarrow> rat \<Rightarrow> shape list" where
  "stack_top N element_height =
     (let top_y = of_nat (N - 1) * element_height
      in [Rectangle (1/10) top_y (4/5) element_height ''yellow'',
          Text (1/20) (top_y + element_height / 2) ''Top''])"

text \<open>
  The local \<^verbatim>\<open>element_height\<close> is bound only in the \<^verbatim>\<open>else\<close> branch; the second component
  of the pair is its binding when the \<^verbatim>\<open>if\<close> statement is left, and reading it unbound
  raises.
\<close>

definition stack_display_snapshot ::
  "('a \<Rightarrow> string) \<Rightarrow> ('a list, 'n) tracer \<Rightarrow> int \<Rightarrow> bool \<Rightarrow> string option \<Rightarrow>
   error + (unit, unit, 'n meta) frame outcome" where
  "stack_display_snapshot str tr stp highlight_top ttl =
     (case get_snapshot tr stp of
        Inl e \<Rightarrow> Inl e
      | Inr (None, md) \<Rightarrow> Inr (Printed ''No data available'')
      | Inr (Some stack, md) \<Rightarrow>
          let N = length stack;
              (drawn, element_height) =
                (if N = 0 then ([Text (1/2) (1/2) ''Empty Stack''], None)
                 else
                   let eh = (4/5) / of_nat N
                   in (concat (map (stack_cell str eh) (enumerate 0 stack))
                       @ (if highlight_top \<and> N > 0 then stack_top N eh else []),
                       Some eh))
          in (case element_height of
                None \<Rightarrow> Inl UnboundLocalError
              | Some eh \<Rightarrow>
                  (case snapshot_title ttl md of
                     Inl e \<Rightarrow> Inl e
                   | Inr t \<Rightarrow>
                       Inr (Shown (blank\<lparr>shapes := drawn, title := Some t,
                                          xlim := Some (0, 1),
                                          ylim := Some (0, max 1 (of_nat N * eh))\<rparr>)))))"

definition stack_create_animation :: "('a list, 'n) tracer \<Rightarrow> nat \<Rightarrow> bool \<Rightarrow> animation outcome" where
  "stack_create_animation tr ival rep = create_animation tr ival rep"

definition stack_update ::
  "('a \<Rightarrow> string) \<Rightarrow> ('a list, 'n) tracer \<Rightarrow> nat \<Rightarrow> error + (unit, unit, 'n meta) frame" where
  "stack_update str tr k =
     (case frame_data tr k of
        Inl e \<Rightarrow> Inl e
      | Inr (stack, md) \<Rightarrow>
          let N = length stack;
              element_height = (if N > 0 then (4/5) / of_nat N else 0);
              drawn = concat (map (stack_cell str element_height) (enumerate 0 stack))
                      @ (if N > 0 then stack_top N element_height else [])
          in (case stack_frame_title md of
                Inl e \<Rightarrow> Inl e
              | Inr t \<Rightarrow>
                  Inr (blank\<lparr>shapes := drawn, title := Some t, xlim := Some (0, 1),
                              ylim := Some (0, max 1 (of_nat N * element_height))\<rparr>)))"

section \<open>\<^verbatim>\<open>QueueVisualizer\<close>\<close>

text \<open>
  The helpers \<^verbatim>\<open>_create_figure_with_code\<close> and \<^verbatim>\<open>_display_code\<close> of the base class are
  not among the sources. The first only sets up the axes; of the second the frame records
  the metadata it is called with.
\<close>

definition queue_cell :: "('a \<Rightarrow> string) \<Rightarrow> rat \<Rightarrow> nat \<times> 'a \<Rightarrow> shape list" where
  "queue_cell str element_width p =
     (case p of (i, v) \<Rightarrow>
        let x = of_nat i * element_width
        in [Rectangle x (1/10) element_width (4/5) ''lightgreen'',
            Text (x + element_width / 2) (1/2) (str v)])"

definition queue_ends :: "nat \<Rightarrow> rat \<Rightarrow> shape list" where
  "queue_ends N element_width =
     [Rectangle 0 (1/10) element_width (4/5) ''yellow'',
      Text (element_width / 2) (1/20) ''Front'',
      Rectangle (of_nat (N - 1) * element_width) (1/10) element_width (4/5) ''yellow'',
      Text (of_nat (N - 1) * element_width + element_width / 2) (1/20) ''Rear'']"

definition queue_display_snapshot ::
  "('a \<Rightarrow> string) \<Rightarrow> ('a list, 'n) tracer \<Rightarrow> int \<Rightarrow> bool \<Rightarrow> bool \<Rightarrow> string option \<Rightarrow>
   error + (unit, unit, 'n meta) frame outcome" where
  "queue_display_snapshot str tr stp highlight_front_rear show_code ttl =
     (case get_snapshot tr stp of
        Inl e \<Rightarrow> Inl e
      | Inr (None, md) \<Rightarrow> Inr (Printed ''No data available'')
      | Inr (Some queue, md) \<Rightarrow>
          let N = length queue;
              (drawn, element_width) =
                (if N = 0 then ([Text (1/2) (1/2) ''Empty Queue''], None)
                 else
                   let ew = (4/5) / of_nat (max 1 N)
                   in (concat (map (queue_cell str ew) (enumerate 0 queue))
                       @ (if highlight_front_rear \<and> N > 0 then queue_ends N ew else []),
                       Some ew))
          in (case element_width of
                None \<Rightarrow> Inl UnboundLocalError
              | Some ew \<Rightarrow>
                  (case snapshot_title ttl md of
                     Inl e \<Rightarrow> Inl e
                   | Inr t \<Rightarrow>
                       Inr (Shown (blank\<lparr>shapes := drawn, title := Some t,
                                          xlim := Some (0, max 1 (of_nat N * ew)),
                                          ylim := Some (0, 1),
                                          code_panel := (if show_code then Some md else None)\<rparr>)))))"

definition queue_create_animation ::
  "('a list, 'n) tracer \<Rightarrow> nat \<Rightarrow> bool \<Rightarrow> bool \<Rightarrow> animation outcome" where
  "queue_create_animation tr ival rep show_code = create_animation tr ival rep"

definition queue_update ::
  "('a \<Rightarrow> string) \<Rightarrow> ('a list, 'n) tracer \<Rightarrow> bool \<Rightarrow> nat \<Rightarrow> error + (unit, unit, 'n meta) frame" where
  "queue_update str tr show_code k =
     (case frame_data tr k of
        Inl e \<Rightarrow> Inl e
      | Inr (queue, md) \<Rightarrow>
          let N = length queue;
              (drawn, element_width) =
                (if N = 0 then ([Text (1/2) (1/2) ''Empty Queue''], None)
                 else
                   let ew = (4/5) / of_nat (max 1 N)
                   in (concat (map (queue_cell str ew) (enumerate 0 queue)) @ queue_ends N ew,
                       Some ew))
          in (case element_width of
                None \<Rightarrow> Inl UnboundLocalError
              | Some ew \<Rightarrow>
                  (case frame_title md of
                     Inl e \<Rightarrow> Inl e
                   | Inr t \<Rightarrow>
                       Inr (blank\<lparr>shapes := drawn, title := Some t,
                                   xlim := Some (0, max 1 (of_nat N * ew)),
                                   ylim := Some (0, 1),
                                   code_panel := (if show_code then Some md else None)\<rparr>))))"

section \<open>\<^verbatim>\<open>DictionaryVisualizer\<close>\<close>

text \<open>\<^verbatim>\<open>int(np.ceil(np.sqrt(n)))\<close>: the least \<open>g\<close> with \<open>n \<le> g * g\<close>.\<close>

function ceil_sqrt_from :: "nat \<Rightarrow> nat \<Rightarrow> nat" where
  "ceil_sqrt_from g n = (if n \<le> g * g then g else ceil_sqrt_from (Suc g) n)"
  by pat_completeness auto
termination
proof (relation "measure (\<lambda>(g, n). n - g)", goal_cases)
  case 1
  show ?case by simp
next
  case (2 g n)
  have "g \<le> g * g" by (cases g) simp_all
  with 2 have "g < n" by linarith
  then show ?case by simp
qed

declare ceil_sqrt_from.simps [simp del]

definition ceil_sqrt :: "nat \<Rightarrow> nat" where
  "ceil_sqrt n = ceil_sqrt_from 0 n"

definition dict_cell ::
  "('k \<Rightarrow> string) \<Rightarrow> ('v \<Rightarrow> string) \<Rightarrow> 'k list option \<Rightarrow> 'v list option \<Rightarrow> nat \<Rightarrow>
   nat \<times> 'k \<times> 'v \<Rightarrow> shape list" where
  "dict_cell strk strv highlight_keys highlight_values grid_size p =
     (case p of (i, key, val) \<Rightarrow>
        let grid_width = 1 / of_nat grid_size;
            grid_height = 1 / of_nat grid_size;
            row = i div grid_size;
            col = i mod grid_size;
            x = of_nat col * grid_width;
            y = 1 - (of_nat row + 1) * grid_height;
            key_color = (if given_and_in highlight_keys key then ''#ffcf75'' else ''#f0f0f0'');
            value_color = (if given_and_in highlight_values val then ''#8dc7f3'' else ''#f0f0f0'')
        in [Rectangle x (y + grid_height / 2) grid_width (grid_height / 2) key_color,
            Rectangle x y grid_width (grid_height / 2) value_color,
            Text (x + grid_width / 2) (y + 3 * grid_height / 4) (strk key),
            Text (x + grid_width / 2) (y + grid_height / 4) (strv val)])"

definition dict_cells ::
  "('k \<Rightarrow> string) \<Rightarrow> ('v \<Rightarrow> string) \<Rightarrow> 'k list option \<Rightarrow> 'v list option \<Rightarrow>
   ('k \<times> 'v) list \<Rightarrow> shape list" where
  "dict_cells strk strv highlight_keys highlight_values items =
     (let n_items = length items
      in if n_items = 0 then [Text (1/2) (1/2) ''Empty Dictionary'']
         else concat (map (dict_cell strk strv highlight_keys highlight_values (ceil_sqrt n_items))
                        (enumerate 0 items)))"

text \<open>A dictionary snapshot is the list of its items in insertion order.\<close>

definition dict_display_snapshot ::
  "('k \<Rightarrow> string) \<Rightarrow> ('v \<Rightarrow> string) \<Rightarrow> (('k \<times> 'v) list, 'n) tracer \<Rightarrow> int \<Rightarrow>
   'k list option \<Rightarrow> 'v list option \<Rightarrow> string option \<Rightarrow>
   error + (unit, unit, 'n meta) frame outcome" where
  "dict_display_snapshot strk strv tr stp highlight_keys highlight_values ttl =
     (case get_snapshot tr stp of
        Inl e \<Rightarrow> Inl e
      | Inr (None, md) \<Rightarrow> Inr (Printed ''No data available'')
      | Inr (Some items, md) \<Rightarrow>
          (case snapshot_title ttl md of
             Inl e \<Rightarrow> Inl e
           | Inr t \<Rightarrow>
               Inr (Shown (blank\<lparr>shapes := dict_cells strk strv highlight_keys highlight_values items,
                                  title := Some t, xlim := Some (0, 1), ylim := Some (0, 1)\<rparr>))))"

definition dict_create_animation ::
  "(('k \<times> 'v) list, 'n) tracer \<Rightarrow> nat \<Rightarrow> bool \<Rightarrow> animation outcome" where
  "dict_create_animation tr ival rep = create_animation tr ival rep"

definition dict_update ::
  "('k \<Rightarrow> string) \<Rightarrow> ('v \<Rightarrow> string) \<Rightarrow> (('k \<times> 'v) list, 'n) tracer \<Rightarrow> nat \<Rightarrow>
   error + (unit, unit, 'n meta) frame" where
  "dict_update strk strv tr k =
     (case frame_data tr k of
        Inl e \<Rightarrow> Inl e
      | Inr (items, md) \<Rightarrow>
          (case frame_title md of
             Inl e \<Rightarrow> Inl e
           | Inr t \<Rightarrow>
               Inr (blank\<lparr>shapes := dict_cells strk strv None None items,
                           title := Some t, xlim := Some (0, 1), ylim := Some (0, 1)\<rparr>)))"

section \<open>Layouts\<close>

text \<open>
  The layout algorithms belong to \<^verbatim>\<open>networkx\<close> and are parameters of the model. The
  force-directed \<^verbatim>\<open>spring_layout\<close> draws its start positions from the global random
  generator, whose state \<open>'r\<close> it reads and advances; the other layouts are functions
  of the graph. \<^verbatim>\<open>graphviz_layout\<close> is \<open>None\<close> where the call raises (for instance when
  \<^verbatim>\<open>pygraphviz\<close> is not installed).
\<close>

record ('g, 'p, 'r) layouts =
  spring_layout :: "'g \<Rightarrow> 'r \<Rightarrow> 'p \<times> 'r"
  circular_layout :: "'g \<Rightarrow> 'p"
  kamada_kawai_layout :: "'g \<Rightarrow> 'p"
  shell_layout :: "'g \<Rightarrow> 'p"
  graphviz_layout :: "'g \<Rightarrow> 'p option"

text \<open>The layout selection of \<^verbatim>\<open>GraphVisualizer\<close>.\<close>

definition graph_layout ::
  "('g, 'p, 'r) layouts \<Rightarrow> string \<Rightarrow> 'g \<Rightarrow> 'r \<Rightarrow> 'p \<times> 'r" where
  "graph_layout L layout G rng =
     (if layout = ''spring'' then spring_layout L G rng
      else if layout = ''circular'' then (circular_layout L G, rng)
      else if layout = ''kamada_kawai'' then (kamada_kawai_layout L G, rng)
      else if layout = ''shell'' then (shell_layout L G, rng)
      else spring_layout L G rng)"

text \<open>The layout selection of \<^verbatim>\<open>TreeVisualizer\<close>.\<close>

definition tree_layout ::
  "('g, 'p, 'r) layouts \<Rightarrow> string \<Rightarrow> 'g \<Rightarrow> 'r \<Rightarrow> 'p \<times> 'r" where
  "tree_layout L layout G rng =
     (if layout = ''dot''
      then (case graphviz_layout L G of Some p \<Rightarrow> (p, rng) | None \<Rightarrow> spring_layout L G rng)
      else if layout = ''circular'' then (circular_layout L G, rng)
      else spring_layout L G rng)"

section \<open>\<^verbatim>\<open>GraphVisualizer\<close>\<close>

text \<open>
  A snapshot is a graph or some other object. Every \<^verbatim>\<open>networkx\<close> graph class passes the
  test \<^verbatim>\<open>isinstance(data, nx.Graph)\<close>: the simple graphs and digraphs, whose edge view yields
  pairs \<open>(u, v)\<close>, and the multigraphs, whose edge view yields triples \<open>(u, v, key)\<close>.
\<close>

record 'n multigraph =
  mnodes :: "'n list"
  medges :: "('n \<times> 'n \<times> int) list"

datatype 'n graph_data = IsGraph "'n nxgraph" | IsMultiGraph "'n multigraph" | NotGraph

text \<open>\<^verbatim>\<open>isinstance(data, nx.Graph)\<close>\<close>

fun is_graph :: "'n graph_data \<Rightarrow> bool" where
  "is_graph (IsGraph G) = True"
| "is_graph (IsMultiGraph M) = True"
| "is_graph NotGraph = False"

text \<open>\<^verbatim>\<open>G.nodes\<close>\<close>

fun graph_nodes :: "'n graph_data \<Rightarrow> 'n list" where
  "graph_nodes (IsGraph G) = node_ids G"
| "graph_nodes (IsMultiGraph M) = mnodes M"
| "graph_nodes NotGraph = []"

text \<open>
  A tuple of nodes and edge keys is the list of its components; tuples of different
  lengths are never equal.
\<close>

type_synonym 'n tuple = "('n + int) list"

definition pair_tuple :: "'n \<times> 'n \<Rightarrow> 'n tuple" where
  "pair_tuple e = (case e of (u, v) \<Rightarrow> [Inl u, Inl v])"

definition triple_tuple :: "'n \<times> 'n \<times> int \<Rightarrow> 'n tuple" where
  "triple_tuple e = (case e of (u, v, key) \<Rightarrow> [Inl u, Inl v, Inr key])"

text \<open>The tuples that iterating \<^verbatim>\<open>G.edges\<close> yields.\<close>

fun edge_tuples :: "'n graph_data \<Rightarrow> 'n tuple list" where
  "edge_tuples (IsGraph G) = map pair_tuple (edges G)"
| "edge_tuples (IsMultiGraph M) = map triple_tuple (medges M)"
| "edge_tuples NotGraph = []"

definition node_colors :: "'n list option \<Rightarrow> 'n graph_data \<Rightarrow> string list" where
  "node_colors highlight G =
     map (\<lambda>node. if given_and_in highlight node then ''#ff7f7f'' else ''#aed9e6'')
       (graph_nodes G)"

definition edge_colors :: "('n \<times> 'n) list option \<Rightarrow> 'n graph_data \<Rightarrow> string list" where
  "edge_colors highlight_edges G =
     (case highlight_edges of
        None \<Rightarrow> replicate (length (edge_tuples G)) ''#666666''
      | Some hs \<Rightarrow>
          if hs \<noteq> []
          then
            let highlight_edges_set =
                  set (map (\<lambda>(u, v). pair_tuple (u, v)) hs)
                  \<union> set (map (\<lambda>(u, v). pair_tuple (v, u)) hs)
            in map (\<lambda>edge. if edge \<in> highlight_edges_set then ''red'' else ''#666666'')
                 (edge_tuples G)
          else replicate (length (edge_tuples G)) ''#666666'')"

definition graph_display_snapshot ::
  "('n graph_data, 'p, 'r) layouts \<Rightarrow> ('n graph_data, 'n) tracer \<Rightarrow> int \<Rightarrow> 'n list option \<Rightarrow>
   ('n \<times> 'n) list option \<Rightarrow> string \<Rightarrow> string option \<Rightarrow> bool \<Rightarrow> 'r \<Rightarrow>
   (error + ('n, 'p, 'n meta) frame outcome) \<times> 'r" where
  "graph_display_snapshot L tr stp hl_nodes hl_edges layout ttl show_code rng =
     (case get_snapshot tr stp of
        Inl e \<Rightarrow> (Inl e, rng)
      | Inr (None, md) \<Rightarrow> (Inr (Printed ''No data available''), rng)
      | Inr (Some G, md) \<Rightarrow>
          if \<not> is_graph G then (Inr (Printed ''Unsupported graph type''), rng)
          else if graph_nodes G = []
          then (Inr (Shown (blank\<lparr>shapes := [Text (1/2) (1/2) ''Empty Graph'']\<rparr>)), rng)
          else
            let (p, rng') = graph_layout L layout G rng;
                d = \<lparr>pos = p, node_color = node_colors hl_nodes G,
                     edge_color = edge_colors hl_edges G, node_labels = []\<rparr>
            in (case snapshot_title ttl md of
                  Inl e \<Rightarrow> (Inl e, rng')
                | Inr t \<Rightarrow>
                    (Inr (Shown (blank\<lparr>drawing := Some d, title := Some t,
                                        code_panel := (if show_code then Some md else None)\<rparr>)),
                     rng')))"

text \<open>The loop that fills \<^verbatim>\<open>pos_frames\<close> when the animation is created.\<close>

fun precompute_layouts ::
  "('n graph_data, 'p, 'r) layouts \<Rightarrow> string \<Rightarrow> 'n graph_data list \<Rightarrow> 'r \<Rightarrow>
   'p option list \<times> 'r" where
  "precompute_layouts L layout [] rng = ([], rng)"
| "precompute_layouts L layout (G # ds) rng =
     (if is_graph G
      then
        let (p, rng1) = graph_layout L layout G rng;
            (ps, rng2) = precompute_layouts L layout ds rng1
        in (Some p # ps, rng2)
      else
        let (ps, rng2) = precompute_layouts L layout ds rng
        in (None # ps, rng2))"

text \<open>The animation object together with the layouts its \<^verbatim>\<open>update\<close> closure holds.\<close>

definition graph_create_animation ::
  "('n graph_data, 'p, 'r) layouts \<Rightarrow> ('n graph_data, 'n) tracer \<Rightarrow> nat \<Rightarrow> bool \<Rightarrow> string \<Rightarrow>
   'r \<Rightarrow> (animation \<times> 'p option list) outcome \<times> 'r" where
  "graph_create_animation L tr ival rep layout rng =
     (if snapshots tr = [] then (Printed ''No snapshots available'', rng)
      else
        let (pos_frames, rng') = precompute_layouts L layout (snapshots tr) rng
        in (Shown (\<lparr>frames = length (snapshots tr), interval = ival, repeat = rep\<rparr>, pos_frames),
            rng'))"

text \<open>
  The frame of \<^verbatim>\<open>update\<close> when the snapshot is no graph or has no cached layout.
\<close>

definition unsupported_frame :: "('n, 'p, 'm) frame" where
  "unsupported_frame = blank\<lparr>shapes := [Text (1/2) (1/2) ''Unsupported Graph Type'']\<rparr>"

definition graph_update ::
  "('n graph_data, 'n) tracer \<Rightarrow> 'p option list \<Rightarrow> nat \<Rightarrow> 'r \<Rightarrow>
   (error + ('n, 'p, 'n meta) frame) \<times> 'r" where
  "graph_update tr pos_frames k rng =
     (case frame_data tr k of
        Inl e \<Rightarrow> (Inl e, rng)
      | Inr (G, md) \<Rightarrow>
          if \<not> k < length pos_frames then (Inl IndexError, rng)
          else
            (case pos_frames ! k of
               None \<Rightarrow> (Inr unsupported_frame, rng)
             | Some p \<Rightarrow>
                 if \<not> is_graph G then (Inr unsupported_frame, rng)
                 else if graph_nodes G = []
                 then (Inr (blank\<lparr>shapes := [Text (1/2) (1/2) ''Empty Graph'']\<rparr>), rng)
                 else
                   let highlight = (case highlight_nodes md of None \<Rightarrow> [] | Some hs \<Rightarrow> hs);
                       d = \<lparr>pos = p,
                            node_color = map (\<lambda>node. if node \<in> set highlight then ''#ff7f7f''
                                                      else ''#aed9e6'') (graph_nodes G),
                            edge_color = replicate (length (edge_tuples G)) ''#666666'',
                            node_labels = []\<rparr>
                   in (case frame_title md of
                         Inl e \<Rightarrow> (Inl e, rng)
                       | Inr t \<Rightarrow> (Inr (blank\<lparr>drawing := Some d, title := Some t\<rparr>), rng))))"

section \<open>\<^verbatim>\<open>TreeVisualizer\<close>\<close>

text \<open>
  \<^verbatim>\<open>label in [str(h) for h in highlight_nodes]\<close>, guarded by the truth test of the argument.
\<close>

definition tree_node_colors :: "pyval list option \<Rightarrow> digraph \<Rightarrow> string list" where
  "tree_node_colors highlight G =
     map (\<lambda>node. if given_and_in (map_option (map py_str) highlight) (label_of G node)
                 then ''#ff7f7f'' else ''#aed9e6'') (node_ids G)"

definition tree_labels :: "digraph \<Rightarrow> (nat \<times> string) list" where
  "tree_labels G = map (\<lambda>node. (node, label_of G node)) (node_ids G)"

text \<open>A stored snapshot that is itself \<^verbatim>\<open>None\<close> passes the test \<^verbatim>\<open>data is None\<close> as well.\<close>

definition tree_display_snapshot ::
  "(digraph, 'p, 'r) layouts \<Rightarrow> (pyval, 'n) tracer \<Rightarrow> int \<Rightarrow> pyval list option \<Rightarrow> string \<Rightarrow>
   string option \<Rightarrow> 'r \<Rightarrow> (error + (nat, 'p, 'n meta) frame outcome) \<times> 'r" where
  "tree_display_snapshot L tr stp highlight layout ttl rng =
     (case get_snapshot tr stp of
        Inl e \<Rightarrow> (Inl e, rng)
      | Inr (None, md) \<Rightarrow> (Inr (Printed ''No data available''), rng)
      | Inr (Some data, md) \<Rightarrow>
          if data = PNone then (Inr (Printed ''No data available''), rng)
          else
            (case tree_to_networkx data of
               Inl e \<Rightarrow> (Inl e, rng)
             | Inr G \<Rightarrow>
                 if nodes G = []
                 then (Inr (Shown (blank\<lparr>shapes := [Text (1/2) (1/2) ''Empty Tree'']\<rparr>)), rng)
                 else
                   let (p, rng') = tree_layout L layout G rng;
                       d = \<lparr>pos = p, node_color = tree_node_colors highlight G,
                            edge_color = replicate (length (edges G)) ''#666666'',
                            node_labels = tree_labels G\<rparr>
                   in (case snapshot_title ttl md of
                         Inl e \<Rightarrow> (Inl e, rng')
                       | Inr t \<Rightarrow>
                           (Inr (Shown (blank\<lparr>drawing := Some d, title := Some t\<rparr>)), rng'))))"

definition tree_create_animation ::
  "(pyval, 'n) tracer \<Rightarrow> nat \<Rightarrow> bool \<Rightarrow> string \<Rightarrow> animation outcome" where
  "tree_create_animation tr ival rep layout = create_animation tr ival rep"

definition tree_update ::
  "(digraph, 'p, 'r) layouts \<Rightarrow> (pyval, 'n) tracer \<Rightarrow> string \<Rightarrow> nat \<Rightarrow> 'r \<Rightarrow>
   (error + (nat, 'p, 'n meta) frame) \<times> 'r" where
  "tree_update L tr layout k rng =
     (case frame_data tr k of
        Inl e \<Rightarrow> (Inl e, rng)
      | Inr (data, md) \<Rightarrow>
          (case tree_to_networkx data of
             Inl e \<Rightarrow> (Inl e, rng)
           | Inr G \<Rightarrow>
               if nodes G = []
               then (Inr (blank\<lparr>shapes := [Text (1/2) (1/2) ''Empty Tree'']\<rparr>), rng)
               else
                 let (p, rng') = tree_layout L layout G rng;
                     d = \<lparr>pos = p,
                          node_color = replicate (length (nodes G)) ''#aed9e6'',
                          edge_color = replicate (length (edges G)) ''#666666'',
                          node_labels = tree_labels G\<rparr>
                 in (case frame_title md of
                       Inl e \<Rightarrow> (Inl e, rng')
                     | Inr t \<Rightarrow> (Inr (blank\<lparr>drawing := Some d, title := Some t\<rparr>), rng'))))"

section \<open>Inputs and notions used in the properties\<close>

text \<open>The node class of the tree example: attributes \<^verbatim>\<open>val\<close>, \<^verbatim>\<open>left\<close>, \<^verbatim>\<open>right\<close>.\<close>

definition TreeNode :: "int \<Rightarrow> pyval \<Rightarrow> pyval \<Rightarrow> pyval" where
  "TreeNode v l r = PObj ''<TreeNode object>'' [(''val'', PInt v), (''left'', l), (''right'', r)]"

text \<open>Root 1 with left child 2 and right child 3; 4 is the right child of 2.\<close>

definition tree_1234 :: pyval where
  "tree_1234 =
     TreeNode 1 (TreeNode 2 PNone (TreeNode 4 PNone PNone)) (TreeNode 3 PNone PNone)"

text \<open>
  The numbering the specification gives for that tree: root 0, left 1, right 2,
  left.right 3, with edges \<open>(0,1)\<close>, \<open>(0,2)\<close>, \<open>(1,3)\<close>.
\<close>

definition level_order_1234 :: "digraph \<Rightarrow> bool" where
  "level_order_1234 G =
     (length (nodes G) = 4 \<and> set (node_ids G) = {0, 1, 2, 3} \<and>
      label_of G 0 = ''1'' \<and> label_of G 1 = ''2'' \<and> label_of G 2 = ''3'' \<and> label_of G 3 = ''4'' \<and>
      set (edges G) = {(0, 1), (0, 2), (1, 3)})"

text \<open>The builder returned a graph, and the graph has the given property.\<close>

definition built_as :: "(digraph \<Rightarrow> bool) \<Rightarrow> error + digraph \<Rightarrow> bool" where
  "built_as P r = (case r of Inl e \<Rightarrow> False | Inr G \<Rightarrow> P G)"

text \<open>The graph of that tree with its nodes numbered in preorder.\<close>

definition preorder_1234 :: digraph where
  "preorder_1234 =
     \<lparr>nodes = [(0, Some ''1''), (1, Some ''2''), (2, Some ''4''), (3, Some ''3'')],
      edges = [(0, 1), (1, 2), (0, 3)]\<rparr>"

text \<open>The capability checks in the order the builder makes them.\<close>

definition check_binary :: "pyval \<Rightarrow> bool" where
  "check_binary v = (py_hasattr v ''left'' \<and> py_hasattr v ''right'')"

definition check_children :: "pyval \<Rightarrow> bool" where
  "check_children v = py_hasattr v ''children''"

definition check_mapping :: "pyval \<Rightarrow> bool" where
  "check_mapping v = (is_dict v \<and> dict_has v ''value'')"

text \<open>
  The three admissible shapes as the specification words them: a node with \<^verbatim>\<open>left\<close> and
  \<^verbatim>\<open>right\<close> attributes, a node whose \<^verbatim>\<open>children\<close> attribute is a list, a mapping with a
  \<^verbatim>\<open>value\<close> entry.
\<close>

definition has_children_list :: "pyval \<Rightarrow> bool" where
  "has_children_list v = (case py_attr v ''children'' of Some (PList xs) \<Rightarrow> True | _ \<Rightarrow> False)"

definition admissible_shape :: "pyval \<Rightarrow> bool" where
  "admissible_shape v = (check_binary v \<or> has_children_list v \<or> check_mapping v)"

text \<open>Objects whose \<^verbatim>\<open>children\<close> attribute is not a list: the number 5, and \<^verbatim>\<open>None\<close>.\<close>

definition children_5 :: pyval where
  "children_5 = PObj ''<Node object>'' [(''children'', PInt 5)]"

definition children_none :: pyval where
  "children_none = PObj ''<Node object>'' [(''children'', PNone)]"

text \<open>
  The walk of the builder as the specification words it: a preorder walk that gives the
  nodes consecutive ids from 0; under the first shape the children of a node are its
  \<^verbatim>\<open>left\<close> and \<^verbatim>\<open>right\<close>, under the other two the items of its children list, in order; a
  child that fails the truth test is skipped.
\<close>

datatype shape_kind = Binary | Children | Mapping

fun kids :: "shape_kind \<Rightarrow> pyval \<Rightarrow> pyval list" where
  "kids Binary node =
     (case py_attr node ''left'' of Some l \<Rightarrow> if py_truthy l then [l] else [] | None \<Rightarrow> [])
     @ (case py_attr node ''right'' of Some r \<Rightarrow> if py_truthy r then [r] else [] | None \<Rightarrow> [])"
| "kids Children node =
     (case py_attr node ''children'' of
        None \<Rightarrow> []
      | Some cs \<Rightarrow>
          if py_truthy cs
          then (case py_iter cs of Inl e \<Rightarrow> [] | Inr xs \<Rightarrow> filter py_truthy xs)
          else [])"
| "kids Mapping node =
     (case node of
        PDict kvs \<Rightarrow>
          (case py_iter (dict_get kvs ''children'' (PList [])) of
             Inl e \<Rightarrow> []
           | Inr xs \<Rightarrow> filter py_truthy xs)
      | _ \<Rightarrow> [])"

lemma kids_children_eq:
  "py_attr node ''children'' = Some cs \<Longrightarrow> py_iter cs = Inr xs \<Longrightarrow>
   kids Children node = (if py_truthy cs then filter py_truthy xs else [])"
  by simp

lemma kids_mapping_eq:
  "py_iter (dict_get kvs ''children'' (PList [])) = Inr xs \<Longrightarrow>
   kids Mapping (PDict kvs) = filter py_truthy xs"
  by simp

declare kids.simps [simp del]

lemma size_kids: "c \<in> set (kids k node) \<Longrightarrow> size c < size node"
proof (cases k)
  case Binary
  assume "c \<in> set (kids k node)"
  with Binary show ?thesis
    by (auto simp: kids.simps split: option.splits if_splits
        dest: size_py_attr size_py_attr [OF sym])
next
  case Children
  assume "c \<in> set (kids k node)"
  then have c: "c \<in> set (kids Children node)" unfolding Children .
  show ?thesis
  proof (cases "py_attr node ''children''")
    case None
    then have "kids Children node = []" by (simp add: kids.simps)
    with c show ?thesis by simp
  next
    case (Some cs)
    show ?thesis
    proof (cases "py_iter cs")
      case (Inl e)
      with Some have "kids Children node = []" by (simp add: kids.simps)
      with c show ?thesis by simp
    next
      case (Inr xs)
      from c have "c \<in> set xs"
        unfolding kids_children_eq [OF Some Inr] by (cases "py_truthy cs") simp_all
      from size_py_iter [OF Inr this] size_py_attr [OF Some] show ?thesis by simp
    qed
  qed
next
  case Mapping
  assume "c \<in> set (kids k node)"
  then have c: "c \<in> set (kids Mapping node)" unfolding Mapping .
  have "\<exists>kvs. node = PDict kvs"
  proof (cases node)
    case (PDict kvs)
    then show ?thesis by simp
  next
    case PNone
    then have "kids Mapping node = []" by (simp add: kids.simps)
    with c show ?thesis by simp
  next
    case (PBool b)
    then have "kids Mapping node = []" by (simp add: kids.simps)
    with c show ?thesis by simp
  next
    case (PInt i)
    then have "kids Mapping node = []" by (simp add: kids.simps)
    with c show ?thesis by simp
  next
    case (PStr s)
    then have "kids Mapping node = []" by (simp add: kids.simps)
    with c show ?thesis by simp
  next
    case (PList xs)
    then have "kids Mapping node = []" by (simp add: kids.simps)
    with c show ?thesis by simp
  next
    case (PObj s attrs)
    then have "kids Mapping node = []" by (simp add: kids.simps)
    with c show ?thesis by simp
  qed
  then obtain kvs where n: "node = PDict kvs" ..
  show ?thesis
  proof (cases "py_iter (dict_get kvs ''children'' (PList []))")
    case (Inl e)
    then have "kids Mapping (PDict kvs) = []" by (simp add: kids.simps)
    with c n show ?thesis by simp
  next
    case (Inr xs)
    from c n have cx: "c \<in> set xs"
      using kids_mapping_eq [OF Inr] by simp
    from size_dict_get_iter [OF Inr cx] n show ?thesis by simp
  qed
qed

function preorder :: "shape_kind \<Rightarrow> pyval \<Rightarrow> pyval list" where
  "preorder k node = (if node = PNone then [] else node # concat (map (preorder k) (kids k node)))"
  by pat_completeness auto
termination
  by (relation "measure (\<lambda>(k, node). size node)") (auto dest: size_kids)

declare preorder.simps [simp del]

text \<open>The label of a node of the mapping shape: its \<^verbatim>\<open>value\<close> entry, or the empty string.\<close>

definition dict_label :: "pyval \<Rightarrow> string" where
  "dict_label node =
     (case node of
        PDict kvs \<Rightarrow> py_str (dict_get kvs ''value'' (PStr []))
      | _ \<Rightarrow> [])"

fun node_label :: "shape_kind \<Rightarrow> pyval \<Rightarrow> string" where
  "node_label Binary node = attr_label node"
| "node_label Children node = attr_label node"
| "node_label Mapping node = dict_label node"

definition labelled :: "shape_kind \<Rightarrow> nat \<times> pyval \<Rightarrow> nat \<times> string option" where
  "labelled k p = (fst p, Some (node_label k (snd p)))"

text \<open>The node ids of a graph under construction are \<open>0, 1, ...\<close> in insertion order.\<close>

definition wf_graph :: "digraph \<Rightarrow> bool" where
  "wf_graph G = (node_ids G = [0..<num_nodes G])"

text \<open>What a recursive call of the builder on a child has to deliver.\<close>

definition delivers ::
  "shape_kind \<Rightarrow> (pyval \<Rightarrow> nat \<Rightarrow> digraph \<Rightarrow> error + digraph) \<Rightarrow> nat \<Rightarrow> pyval \<Rightarrow> digraph
   \<Rightarrow> bool" where
  "delivers k f n c H =
     (\<forall>H'. f c (num_nodes H) (add_edge H n (num_nodes H)) = Inr H' \<longrightarrow>
           wf_graph (add_edge H n (num_nodes H)) \<longrightarrow>
           (num_nodes (add_edge H n (num_nodes H)) = num_nodes H \<or>
            num_nodes (add_edge H n (num_nodes H)) = Suc (num_nodes H)) \<longrightarrow>
           c \<noteq> PNone \<longrightarrow>
           nodes H' = take (num_nodes H) (nodes (add_edge H n (num_nodes H)))
                      @ map (labelled k) (enumerate (num_nodes H) (preorder k c)))"

text \<open>The branch the builder takes.\<close>

definition dispatch :: "pyval \<Rightarrow> shape_kind option" where
  "dispatch t =
     (if check_binary t then Some Binary
      else if check_children t then Some Children
      else if check_mapping t then Some Mapping
      else None)"

text \<open>A mapping with both a \<^verbatim>\<open>val\<close> and a \<^verbatim>\<open>value\<close> entry and a child without \<^verbatim>\<open>value\<close>.\<close>

definition mapping_78 :: pyval where
  "mapping_78 =
     PDict [(''val'', PInt 7), (''value'', PInt 8),
            (''children'', PList [PDict [(''x'', PInt 1)]])]"

definition mapping_78_graph :: digraph where
  "mapping_78_graph = \<lparr>nodes = [(0, Some ''8''), (1, Some [])], edges = [(0, 1)]\<rparr>"


text \<open>
  A layout engine for examples: a position assignment is a number, the force-directed
  layout returns the state of the random generator and advances it, every other layout
  returns 0, and \<^verbatim>\<open>graphviz\<close> is not installed.
\<close>

definition counting_layouts :: "('g, nat, nat) layouts" where
  "counting_layouts =
     \<lparr>spring_layout = (\<lambda>G r. (r, Suc r)),
      circular_layout = (\<lambda>G. 0),
      kamada_kawai_layout = (\<lambda>G. 0),
      shell_layout = (\<lambda>G. 0),
      graphviz_layout = (\<lambda>G. None)\<rparr>"

text \<open>The metadata a caller passes with \<^verbatim>\<open>description="start"\<close>, and what the store makes of it at step 0.\<close>

definition start_meta :: "int meta" where
  "start_meta = empty_meta\<lparr>description := Some ''start''\<rparr>"

definition start_meta0 :: "int meta" where
  "start_meta0 = start_meta\<lparr>step := Some 0\<rparr>"

text \<open>An undirected graph on the nodes 1 and 2 whose only edge is stored as \<open>(2,1)\<close>.\<close>

definition graph_21 :: "int nxgraph" where
  "graph_21 = \<lparr>nodes = [(1, None), (2, None)], edges = [(2, 1)]\<rparr>"

text \<open>Stores holding one snapshot each: a graph, a list of five elements, a dictionary, a tree.\<close>

definition graph_tracer :: "(int graph_data, int) tracer" where
  "graph_tracer = capture new_tracer (IsGraph graph_21) start_meta"

definition list_tracer :: "(int list, int) tracer" where
  "list_tracer = capture new_tracer [10, 20, 30, 40, 50] start_meta"

definition dict_tracer :: "((string \<times> int) list, int) tracer" where
  "dict_tracer = capture new_tracer [(''age'', 30)] start_meta"

definition tree_tracer :: "(pyval, int) tracer" where
  "tree_tracer = capture new_tracer tree_1234 start_meta"

text \<open>A store whose only snapshot is a graph without nodes.\<close>

definition empty_graph_tracer :: "(int graph_data, int) tracer" where
  "empty_graph_tracer = capture new_tracer (IsGraph \<lparr>nodes = [], edges = []\<rparr>) start_meta"



text \<open>Stores whose only snapshot is an empty mapping, and an object that is no graph.\<close>

definition empty_tree_tracer :: "(pyval, int) tracer" where
  "empty_tree_tracer = capture new_tracer (PDict []) start_meta"

definition no_graph_tracer :: "(int graph_data, int) tracer" where
  "no_graph_tracer = capture new_tracer NotGraph start_meta"


text \<open>A store whose only snapshot is a stack, captured without a description.\<close>

definition plain_stack_tracer :: "(int list, int) tracer" where
  "plain_stack_tracer = capture new_tracer [10] empty_meta"

text \<open>
  The title the precedence rule asks for: the caller's title if it is given and not
  empty, else the step with the description if there is a non-empty one, else the step.
\<close>

definition expected_title :: "string option \<Rightarrow> string option \<Rightarrow> nat \<Rightarrow> string" where
  "expected_title ttl desc n =
     (if ttl \<noteq> None \<and> ttl \<noteq> Some [] then the ttl
      else if desc \<noteq> None \<and> desc \<noteq> Some [] then ''Step '' @ str_nat n @ '': '' @ the desc
      else ''Step '' @ str_nat n)"

section \<open>Properties of the canonical graph builder\<close>

text \<open>
  C1. For the tree with root 1, left child 2, right child 3 and 4 as the right child of 2,
  the builder assigns ids in preorder: the root is 0, the left child 1, its right child
  (value 4) is 2 and the root's right child (value 3) is 3; the edges are \<open>(0,1)\<close>,
  \<open>(1,2)\<close> and \<open>(0,3)\<close>.
\<close>

theorem tree_1234_preorder:
  "tree_to_networkx tree_1234 =
     Inr \<lparr>nodes = [(0, Some ''1''), (1, Some ''2''), (2, Some ''4''), (3, Some ''3'')],
          edges = [(0, 1), (1, 2), (0, 3)]\<rparr>"
  by code_simp

text \<open>
  The numbering stated in the specification (right child 2, left.right 3, edges
  \<open>(0,2)\<close> and \<open>(1,3)\<close>) is not what the builder produces.
\<close>

theorem tree_1234_not_level_order:
  "\<not> built_as level_order_1234 (tree_to_networkx tree_1234)"
  by code_simp

lemma wf_fst_nth: "wf_graph G \<Longrightarrow> i < num_nodes G \<Longrightarrow> fst (nodes G ! i) = i"
proof -
  assume w: "wf_graph G" and i: "i < num_nodes G"
  then have "node_ids G ! i = i" by (simp add: wf_graph_def)
  with i show ?thesis by (simp add: node_ids_def num_nodes_def)
qed

lemma add_node_at:
  assumes w: "wf_graph G" and n: "num_nodes G = n \<or> num_nodes G = Suc n"
  shows "nodes (add_node G n l) = take n (nodes G) @ [(n, Some l)]"
proof (cases "num_nodes G = n")
  case True
  with w have "n \<notin> set (node_ids G)" by (simp add: wf_graph_def)
  with True show ?thesis by (simp add: add_node_def num_nodes_def)
next
  case False
  with n have s: "num_nodes G = Suc n" by simp
  with w have mem: "n \<in> set (node_ids G)" by (simp add: wf_graph_def)
  let ?f = "\<lambda>(m, l'). if m = n then (m, Some l) else (m, l')"
  from s have split: "nodes G = take n (nodes G) @ [nodes G ! n]"
    by (simp add: num_nodes_def take_Suc_conv_app_nth [symmetric])
  have last: "?f (nodes G ! n) = (n, Some l)"
    using wf_fst_nth [OF w, of n] s by (cases "nodes G ! n") simp
  have "\<And>x. x \<in> set (take n (nodes G)) \<Longrightarrow> ?f x = x"
  proof -
    fix x assume "x \<in> set (take n (nodes G))"
    then obtain i where i: "i < n" "x = nodes G ! i"
      using s by (auto simp: in_set_conv_nth num_nodes_def)
    with wf_fst_nth [OF w, of i] s have "fst x \<noteq> n" by simp
    then show "?f x = x" by (simp add: case_prod_beta)
  qed
  then have front: "map ?f (take n (nodes G)) = take n (nodes G)"
    by (simp add: map_idI)
  have "map ?f (nodes G) = map ?f (take n (nodes G)) @ [?f (nodes G ! n)]"
    by (subst split) simp
  with front last mem show ?thesis by (simp add: add_node_def)
qed

lemma add_edge_at:
  assumes w: "wf_graph G" and n: "n < num_nodes G"
  shows "nodes (add_edge G n (num_nodes G)) = nodes G @ [(num_nodes G, None)]"
  using assms by (simp add: add_edge_def touch_node_def wf_graph_def Let_def node_ids_def num_nodes_def)

lemma wf_builds:
  assumes h: "nodes H = take n (nodes G) @ map (labelled k) (enumerate n xs)"
    and w: "wf_graph G" and n: "n \<le> num_nodes G"
  shows "wf_graph H \<and> num_nodes H = n + length xs"
proof -
  from w n have "map fst (take n (nodes G)) = [0..<n]"
    by (simp add: wf_graph_def node_ids_def take_map [symmetric] take_upt)
  moreover have "map fst (map (labelled k) (enumerate n xs)) = [n..<n + length xs]"
    by (simp add: labelled_def comp_def map_fst_enumerate [unfolded comp_def])
  ultimately have "node_ids H = [0..<n] @ [n..<n + length xs]"
    by (simp add: h node_ids_def)
  moreover from h n have "num_nodes H = n + length xs" by (simp add: num_nodes_def)
  ultimately show ?thesis
    by (simp add: wf_graph_def upt_add_eq_append [symmetric])
qed

lemma add_edge_wf:
  assumes w: "wf_graph G" and n: "n < num_nodes G"
  shows "wf_graph (add_edge G n (num_nodes G))"
    and "num_nodes (add_edge G n (num_nodes G)) = Suc (num_nodes G)"
  using add_edge_at [OF w n] w
  by (simp_all add: wf_graph_def node_ids_def num_nodes_def)

lemma wf_extend:
  assumes h: "nodes H = nodes G @ map (labelled k) (enumerate (num_nodes G) xs)"
    and w: "wf_graph G"
  shows "wf_graph H" and "num_nodes H = num_nodes G + length xs"
proof -
  from h have "nodes H = take (num_nodes G) (nodes G) @ map (labelled k) (enumerate (num_nodes G) xs)"
    by (simp add: num_nodes_def)
  from wf_builds [OF this w] show "wf_graph H" and "num_nodes H = num_nodes G + length xs"
    by simp_all
qed

lemma visit_child:
  assumes d: "delivers k f n c H" and w: "wf_graph H" and n: "n < num_nodes H"
    and t: "py_truthy c"
    and r: "f c (num_nodes H) (add_edge H n (num_nodes H)) = Inr H'"
  shows "nodes H' = nodes H @ map (labelled k) (enumerate (num_nodes H) (preorder k c))"
proof -
  from t have "c \<noteq> PNone" by auto
  with d r add_edge_wf [OF w n] have
    "nodes H' = take (num_nodes H) (nodes (add_edge H n (num_nodes H)))
                @ map (labelled k) (enumerate (num_nodes H) (preorder k c))"
    by (simp add: delivers_def)
  then show ?thesis
    unfolding add_edge_at [OF w n] by (simp add: num_nodes_def)
qed

lemma visit_children:
  assumes d: "\<And>c H. c \<in> set xs \<Longrightarrow> py_truthy c \<Longrightarrow> delivers k f n c H"
  shows "for_each (\<lambda>child H. if py_truthy child
                               then f child (num_nodes H) (add_edge H n (num_nodes H))
                               else Inr H) xs H0 = Inr H' \<Longrightarrow>
         wf_graph H0 \<Longrightarrow> n < num_nodes H0 \<Longrightarrow>
         nodes H' = nodes H0 @ map (labelled k)
                      (enumerate (num_nodes H0) (concat (map (preorder k) (filter py_truthy xs))))"
  using d
proof (induction xs arbitrary: H0)
  case Nil
  then show ?case by simp
next
  case (Cons c cs)
  let ?body = "\<lambda>child H. if py_truthy child
                 then f child (num_nodes H) (add_edge H n (num_nodes H)) else Inr H"
  from Cons.prems(1) obtain H1 where
    h1: "?body c H0 = Inr H1" and rest: "for_each ?body cs H1 = Inr H'"
    by (auto split: sum.splits)
  let ?w = "if py_truthy c then preorder k c else []"
  have n1: "nodes H1 = nodes H0 @ map (labelled k) (enumerate (num_nodes H0) ?w)"
  proof (cases "py_truthy c")
    case True
    with h1 have "f c (num_nodes H0) (add_edge H0 n (num_nodes H0)) = Inr H1" by simp
    from visit_child [OF Cons.prems(4) [of c H0] Cons.prems(2,3) True this] True
    show ?thesis by simp
  next
    case False
    with h1 show ?thesis by simp
  qed
  note e1 = wf_extend [OF n1 Cons.prems(2)]
  from e1(2) Cons.prems(3) have lt: "n < num_nodes H1" by simp
  have "nodes H' = nodes H1 @ map (labelled k)
          (enumerate (num_nodes H1) (concat (map (preorder k) (filter py_truthy cs))))"
    by (rule Cons.IH [OF rest e1(1) lt]) (simp add: Cons.prems(4))
  with n1 e1(2) show ?case
    by (simp add: enumerate_append_eq)
qed

lemma root_node:
  assumes w: "wf_graph G" and n: "num_nodes G = n \<or> num_nodes G = Suc n"
    and g: "G1 = add_node G n (node_label k node)"
  shows "nodes G1 = take n (nodes G) @ map (labelled k) (enumerate n [node])"
    and "wf_graph G1" and "num_nodes G1 = Suc n"
proof -
  show a: "nodes G1 = take n (nodes G) @ map (labelled k) (enumerate n [node])"
    unfolding g add_node_at [OF w n] by (simp add: labelled_def)
  from n have "n \<le> num_nodes G" by auto
  from wf_builds [OF a w this] show "wf_graph G1" and "num_nodes G1 = Suc n" by simp_all
qed

lemma preorder_node:
  "node \<noteq> PNone \<Longrightarrow> preorder k node = node # concat (map (preorder k) (kids k node))"
  by (simp add: preorder.simps [of k node])

lemma assemble:
  assumes a: "nodes G1 = take n (nodes G) @ map (labelled k) (enumerate n [node])"
    and s: "num_nodes G1 = Suc n"
    and b: "nodes G' = nodes G1 @ map (labelled k) (enumerate (num_nodes G1) rest)"
  shows "nodes G' = take n (nodes G) @ map (labelled k) (enumerate n (node # rest))"
  using a s b by simp

lemma binary_nodes:
  "add_nodes_binary node n G = Inr G' \<Longrightarrow> wf_graph G \<Longrightarrow>
   num_nodes G = n \<or> num_nodes G = Suc n \<Longrightarrow> node \<noteq> PNone \<Longrightarrow>
   nodes G' = take n (nodes G) @ map (labelled Binary) (enumerate n (preorder Binary node))"
proof (induction node n G arbitrary: G' rule: add_nodes_binary.induct)
  case (1 node n G)
  define G1 where "G1 = add_node G n (attr_label node)"
  then have g1: "G1 = add_node G n (node_label Binary node)" by simp
  note root = root_node [OF "1.prems"(2,3) g1]
  have run: "(case py_attr node ''left'' of
                None \<Rightarrow> Inl AttributeError
              | Some l \<Rightarrow>
                  (case (if py_truthy l
                         then add_nodes_binary l (num_nodes G1) (add_edge G1 n (num_nodes G1))
                         else Inr G1) of
                     Inl e \<Rightarrow> Inl e
                   | Inr G2 \<Rightarrow>
                       (case py_attr node ''right'' of
                          None \<Rightarrow> Inl AttributeError
                        | Some r \<Rightarrow>
                            if py_truthy r
                            then add_nodes_binary r (num_nodes G2) (add_edge G2 n (num_nodes G2))
                            else Inr G2))) = Inr G'"
    using "1.prems"(1,4) unfolding add_nodes_binary.simps [of node n G] G1_def
    by (simp add: Let_def)
  from run obtain l where l: "py_attr node ''left'' = Some l"
    by (cases "py_attr node ''left''") simp_all
  let ?left = "if py_truthy l
               then add_nodes_binary l (num_nodes G1) (add_edge G1 n (num_nodes G1))
               else Inr G1"
  from run l obtain G2 where s2: "?left = Inr G2"
    by (cases ?left) simp_all
  from run l s2 obtain r where r: "py_attr node ''right'' = Some r"
    by (cases "py_attr node ''right''") simp_all
  let ?right = "if py_truthy r
                then add_nodes_binary r (num_nodes G2) (add_edge G2 n (num_nodes G2))
                else Inr G2"
  from run l s2 r have s3: "?right = Inr G'"
    by simp
  let ?lw = "if py_truthy l then preorder Binary l else []"
  let ?rw = "if py_truthy r then preorder Binary r else []"
  from root(3) have lt1: "n < num_nodes G1" by simp
  have n2: "nodes G2 = nodes G1 @ map (labelled Binary) (enumerate (num_nodes G1) ?lw)"
  proof (cases "py_truthy l")
    case True
    have "delivers Binary add_nodes_binary n l G1"
      unfolding delivers_def using "1.IH"(1) [OF "1.prems"(4) G1_def l True] by blast
    from visit_child [OF this root(2) lt1 True] s2 True show ?thesis by simp
  next
    case False
    with s2 show ?thesis by simp
  qed
  note e2 = wf_extend [OF n2 root(2)]
  from e2(2) lt1 have lt2: "n < num_nodes G2" by simp
  have n3: "nodes G' = nodes G2 @ map (labelled Binary) (enumerate (num_nodes G2) ?rw)"
  proof (cases "py_truthy r")
    case True
    have "delivers Binary add_nodes_binary n r G2"
      unfolding delivers_def
      using "1.IH"(2) [OF "1.prems"(4) G1_def l s2 r True] by blast
    from visit_child [OF this e2(1) lt2 True] s3 True show ?thesis by simp
  next
    case False
    with s3 show ?thesis by simp
  qed
  from n2 n3 e2(2)
  have all: "nodes G' = nodes G1 @ map (labelled Binary) (enumerate (num_nodes G1) (?lw @ ?rw))"
    by (simp add: enumerate_append_eq)
  have k: "concat (map (preorder Binary) (kids Binary node)) = ?lw @ ?rw"
    using l r by (simp add: kids.simps)
  from assemble [OF root(1,3) all] show ?case
    by (simp only: preorder_node [OF "1.prems"(4)] k)
qed

lemma children_nodes:
  "add_nodes_children node n G = Inr G' \<Longrightarrow> wf_graph G \<Longrightarrow>
   num_nodes G = n \<or> num_nodes G = Suc n \<Longrightarrow> node \<noteq> PNone \<Longrightarrow>
   nodes G' = take n (nodes G) @ map (labelled Children) (enumerate n (preorder Children node))"
proof (induction node n G arbitrary: G' rule: add_nodes_children.induct)
  case (1 node n G)
  define G1 where "G1 = add_node G n (attr_label node)"
  then have g1: "G1 = add_node G n (node_label Children node)" by simp
  note root = root_node [OF "1.prems"(2,3) g1]
  let ?body = "\<lambda>child H. if py_truthy child
                 then add_nodes_children child (num_nodes H) (add_edge H n (num_nodes H))
                 else Inr H"
  have run: "(case py_attr node ''children'' of
                None \<Rightarrow> Inl AttributeError
              | Some cs \<Rightarrow>
                  if py_truthy cs
                  then (case py_iter cs of Inl e \<Rightarrow> Inl e | Inr xs \<Rightarrow> for_each ?body xs G1)
                  else Inr G1) = Inr G'"
    using "1.prems"(1,4) unfolding add_nodes_children.simps [of node n G] G1_def
    by (simp add: Let_def)
  from run obtain cs where cs: "py_attr node ''children'' = Some cs"
    by (cases "py_attr node ''children''") simp_all
  from root(3) have lt1: "n < num_nodes G1" by simp
  have "nodes G' = nodes G1 @ map (labelled Children)
          (enumerate (num_nodes G1) (concat (map (preorder Children) (kids Children node))))"
  proof (cases "py_truthy cs")
    case False
    with run cs have "G' = G1" by simp
    moreover from False cs have "kids Children node = []" by (simp add: kids.simps)
    ultimately show ?thesis by simp
  next
    case True
    with run cs obtain xs where xs: "py_iter cs = Inr xs"
      by (cases "py_iter cs") simp_all
    with run cs True have loop: "for_each ?body xs G1 = Inr G'" by simp
    have d: "delivers Children add_nodes_children n c H" if "c \<in> set xs" "py_truthy c" for c H
      unfolding delivers_def
      using "1.IH" [OF "1.prems"(4) G1_def cs True xs that] by blast
    from kids_children_eq [OF cs xs] True
    have "kids Children node = filter py_truthy xs" by simp
    with visit_children [OF d loop root(2) lt1] show ?thesis by simp
  qed
  from assemble [OF root(1,3) this] show ?case
    by (simp only: preorder_node [OF "1.prems"(4)])
qed

lemma dict_nodes:
  "add_nodes_dict node n G = Inr G' \<Longrightarrow> wf_graph G \<Longrightarrow>
   num_nodes G = n \<or> num_nodes G = Suc n \<Longrightarrow> node \<noteq> PNone \<Longrightarrow>
   nodes G' = take n (nodes G) @ map (labelled Mapping) (enumerate n (preorder Mapping node))"
proof (induction node n G arbitrary: G' rule: add_nodes_dict.induct)
  case (1 node n G)
  have "\<exists>kvs. node = PDict kvs"
    using "1.prems"(1,4) unfolding add_nodes_dict.simps [of node n G]
    by (cases node) simp_all
  then obtain kvs where node: "node = PDict kvs" ..
  define G1 where "G1 = add_node G n (py_str (dict_get kvs ''value'' (PStr [])))"
  with node have g1: "G1 = add_node G n (node_label Mapping node)"
    by (simp add: dict_label_def)
  note root = root_node [OF "1.prems"(2,3) g1]
  let ?body = "\<lambda>child H. if py_truthy child
                 then add_nodes_dict child (num_nodes H) (add_edge H n (num_nodes H))
                 else Inr H"
  have run: "(case py_iter (dict_get kvs ''children'' (PList [])) of
                Inl e \<Rightarrow> Inl e
              | Inr xs \<Rightarrow> for_each ?body xs G1) = Inr G'"
    using "1.prems"(1) unfolding node add_nodes_dict.simps [of "PDict kvs" n G] G1_def
    by (simp add: Let_def)
  then obtain xs where xs: "py_iter (dict_get kvs ''children'' (PList [])) = Inr xs"
    by (cases "py_iter (dict_get kvs ''children'' (PList []))") simp_all
  with run have loop: "for_each ?body xs G1 = Inr G'" by simp
  from root(3) have lt1: "n < num_nodes G1" by simp
  have d: "delivers Mapping add_nodes_dict n c H" if "c \<in> set xs" "py_truthy c" for c H
    unfolding delivers_def
    using "1.IH" [OF "1.prems"(4) node G1_def refl xs that] by blast
  from kids_mapping_eq [OF xs] node
  have "kids Mapping node = filter py_truthy xs" by simp
  with visit_children [OF d loop root(2) lt1]
  have "nodes G' = nodes G1 @ map (labelled Mapping)
          (enumerate (num_nodes G1) (concat (map (preorder Mapping) (kids Mapping node))))"
    by simp
  from assemble [OF root(1,3) this] show ?case
    by (simp only: preorder_node [OF "1.prems"(4)])
qed

lemma wf_empty: "wf_graph empty_graph" "num_nodes empty_graph = 0"
  by (simp_all add: wf_graph_def empty_graph_def node_ids_def num_nodes_def)

text \<open>
  C9. When the builder succeeds on a value of one of the three shapes, the nodes of the
  graph are the nodes it visits, in preorder, the i-th visited node under id i. Under
  the two attribute shapes (\<^verbatim>\<open>left\<close>/\<^verbatim>\<open>right\<close> and \<^verbatim>\<open>children\<close>) its label is the string form
  of its \<^verbatim>\<open>val\<close> attribute if it has one, else of its \<^verbatim>\<open>value\<close> attribute, else of the node
  itself; under the mapping shape its label is the string form of its \<^verbatim>\<open>value\<close> entry, or
  the empty string when it has none.
\<close>

theorem nodes_follow_preorder:
  assumes b: "tree_to_networkx t = Inr G" and k: "dispatch t = Some k"
  shows "nodes G = map (\<lambda>(i, v). (i, Some (node_label k v))) (enumerate 0 (preorder k t))"
proof -
  have lab: "labelled k = (\<lambda>(i, v). (i, Some (node_label k v)))"
    by (auto simp: labelled_def)
  from k have nn: "t \<noteq> PNone"
    by (auto simp: dispatch_def check_binary_def check_children_def check_mapping_def
        py_hasattr_def is_dict_def split: if_splits)
  have w: "num_nodes empty_graph = 0 \<or> num_nodes empty_graph = Suc 0"
    by (simp add: wf_empty)
  have "nodes G = take 0 (nodes empty_graph) @ map (labelled k) (enumerate 0 (preorder k t))"
  proof (cases k)
    case Binary
    with k b have "add_nodes_binary t 0 empty_graph = Inr G"
      by (auto simp: dispatch_def tree_to_networkx_def check_binary_def split: if_splits)
    from binary_nodes [OF this wf_empty(1) w nn] Binary show ?thesis by simp
  next
    case Children
    with k b have "add_nodes_children t 0 empty_graph = Inr G"
      by (auto simp: dispatch_def tree_to_networkx_def check_binary_def check_children_def
          split: if_splits)
    from children_nodes [OF this wf_empty(1) w nn] Children show ?thesis by simp
  next
    case Mapping
    with k b have "add_nodes_dict t 0 empty_graph = Inr G"
      by (auto simp: dispatch_def tree_to_networkx_def check_binary_def check_children_def
          check_mapping_def split: if_splits)
    from dict_nodes [OF this wf_empty(1) w nn] Mapping show ?thesis by simp
  qed
  then show ?thesis by (simp add: lab)
qed


theorem nodes_follow_preorder_witness:
  "tree_to_networkx tree_1234 = Inr preorder_1234 \<and> dispatch tree_1234 = Some Binary \<and>
   nodes preorder_1234
     = map (\<lambda>(i, v). (i, Some (node_label Binary v))) (enumerate 0 (preorder Binary tree_1234)) \<and>
   tree_to_networkx mapping_78 = Inr mapping_78_graph \<and> dispatch mapping_78 = Some Mapping \<and>
   nodes mapping_78_graph
     = map (\<lambda>(i, v). (i, Some (node_label Mapping v))) (enumerate 0 (preorder Mapping mapping_78)) \<and>
   preorder Mapping mapping_78 = [mapping_78, PDict [(''x'', PInt 1)]]"
proof -
  have b1: "tree_to_networkx tree_1234 = Inr preorder_1234" by code_simp
  have k1: "dispatch tree_1234 = Some Binary" by code_simp
  have b2: "tree_to_networkx mapping_78 = Inr mapping_78_graph" by code_simp
  have k2: "dispatch mapping_78 = Some Mapping" by code_simp
  have p: "preorder Mapping mapping_78 = [mapping_78, PDict [(''x'', PInt 1)]]" by code_simp
  from nodes_follow_preorder [OF b1 k1] nodes_follow_preorder [OF b2 k2] b1 k1 b2 k2 p
  show ?thesis by blast
qed

text \<open>
  The rule with \<^verbatim>\<open>val\<close> first and the node itself last does not hold under the mapping
  shape. For the mapping with \<^verbatim>\<open>val\<close> 7, \<^verbatim>\<open>value\<close> 8 and one child without a \<^verbatim>\<open>value\<close> entry,
  the root is labelled \<open>8\<close>, which is neither the string form of the mapping (it has no
  attributes \<^verbatim>\<open>val\<close> or \<^verbatim>\<open>value\<close>) nor that of its \<^verbatim>\<open>val\<close> entry; the child is labelled with
  the empty string, not with its own string form.
\<close>

theorem mapping_label_is_value_entry:
  "tree_to_networkx mapping_78 = Inr mapping_78_graph \<and>
   label_of mapping_78_graph 0 = ''8'' \<and>
   attr_label mapping_78 \<noteq> ''8'' \<and>
   py_str (PInt 7) \<noteq> ''8'' \<and>
   label_of mapping_78_graph 1 = [] \<and>
   attr_label (PDict [(''x'', PInt 1)]) \<noteq> []"
  by code_simp

text \<open>
  C7. For \<^verbatim>\<open>None\<close> and for every value that passes none of the three capability checks of
  the builder (it has both a \<^verbatim>\<open>left\<close> and a \<^verbatim>\<open>right\<close> attribute; it has a \<^verbatim>\<open>children\<close>
  attribute, whatever its value; it is a mapping with a \<^verbatim>\<open>value\<close> entry), the builder
  returns the empty graph and raises nothing.
\<close>

theorem no_check_empty_graph:
  "v = PNone \<or> (\<not> check_binary v \<and> \<not> check_children v \<and> \<not> check_mapping v) \<Longrightarrow>
   tree_to_networkx v = Inr empty_graph"
  by (auto simp: tree_to_networkx_def py_hasattr_def is_dict_def
      check_binary_def check_children_def check_mapping_def)

theorem no_check_empty_graph_witness:
  "tree_to_networkx PNone = Inr empty_graph \<and>
   (\<not> check_binary (PObj ''n'' [(''left'', PNone)]) \<and>
    \<not> check_children (PObj ''n'' [(''left'', PNone)]) \<and>
    \<not> check_mapping (PObj ''n'' [(''left'', PNone)])) \<and>
   tree_to_networkx (PObj ''n'' [(''left'', PNone)]) = Inr empty_graph \<and>
   tree_to_networkx (PDict [(''children'', PList [])]) = Inr empty_graph"
  using no_check_empty_graph [of PNone]
    no_check_empty_graph [of "PObj ''n'' [(''left'', PNone)]"]
    no_check_empty_graph [of "PDict [(''children'', PList [])]"]
  by (simp add: py_hasattr_def is_dict_def dict_has_def
      check_binary_def check_children_def check_mapping_def)

text \<open>
  An object whose \<^verbatim>\<open>children\<close> attribute is not a list has none of the three shapes as the
  specification words them, yet the builder takes its second branch: with
  \<^verbatim>\<open>children = 5\<close> the loop over the children raises the type error, with
  \<^verbatim>\<open>children = None\<close> the builder returns a graph with one node.
\<close>

theorem children_not_a_list:
  "\<not> admissible_shape children_5 \<and> tree_to_networkx children_5 = Inl TypeError \<and>
   \<not> admissible_shape children_none \<and>
   tree_to_networkx children_none
     = Inr \<lparr>nodes = [(0, Some ''<Node object>'')], edges = []\<rparr>"
  by code_simp

section \<open>Properties of the visualizers\<close>

text \<open>
  C10. When the stored snapshot is an empty stack or queue, \<^verbatim>\<open>display_snapshot\<close> of the
  stack and of the queue visualizer raises the unbound-local error: the local holding
  the element size is read for the axis limits but was bound only in the non-empty branch.
\<close>

theorem empty_stack_queue_unbound:
  "get_snapshot tr stp = Inr (Some [], md) \<Longrightarrow>
   stack_display_snapshot str tr stp highlight_top ttl = Inl UnboundLocalError \<and>
   queue_display_snapshot str tr stp highlight_front_rear show_code ttl = Inl UnboundLocalError"
  by (simp add: stack_display_snapshot_def queue_display_snapshot_def)

theorem empty_stack_queue_unbound_witness:
  "get_snapshot (capture new_tracer ([]::int list) (empty_meta :: unit meta)) 0
     = Inr (Some [], empty_meta\<lparr>step := Some 0\<rparr>) \<and>
   stack_display_snapshot str_int (capture new_tracer ([]::int list) (empty_meta :: unit meta))
     0 True None = Inl UnboundLocalError \<and>
   queue_display_snapshot str_int (capture new_tracer ([]::int list) (empty_meta :: unit meta))
     0 True True None = Inl UnboundLocalError"
  using empty_stack_queue_unbound
    [of "capture new_tracer ([]::int list) (empty_meta :: unit meta)" 0
        "empty_meta\<lparr>step := Some 0\<rparr>" str_int True None True True]
  by (simp add: get_snapshot_def capture_def new_tracer_def)

text \<open>
  C6. On an empty trace store every variant's \<^verbatim>\<open>display_snapshot\<close> prints that no data is
  available and renders no frame, and every variant's \<^verbatim>\<open>create_animation\<close> prints that no
  snapshots are available and returns no animation; none of the calls raises.
\<close>

theorem empty_store_no_data:
  fixes trl :: "('a list, 'n) tracer" and trd :: "(('k \<times> 'v) list, 'n) tracer"
    and trg :: "('n graph_data, 'n) tracer" and trt :: "(pyval, 'n) tracer"
  assumes "snapshots trl = []" and "snapshots trd = []"
    and "snapshots trg = []" and "snapshots trt = []"
  shows
   "list_display_snapshot str trl stp hi hv hr ttl si = Inr (Printed ''No data available'') \<and>
    list_create_animation trl ival rep si = Printed ''No snapshots available'' \<and>
    stack_display_snapshot str trl stp ht ttl = Inr (Printed ''No data available'') \<and>
    stack_create_animation trl ival rep = Printed ''No snapshots available'' \<and>
    queue_display_snapshot str trl stp hfr sc ttl = Inr (Printed ''No data available'') \<and>
    queue_create_animation trl ival rep sc = Printed ''No snapshots available'' \<and>
    dict_display_snapshot strk strv trd stp hk hvs ttl = Inr (Printed ''No data available'') \<and>
    dict_create_animation trd ival rep = Printed ''No snapshots available'' \<and>
    graph_display_snapshot L trg stp hn he layout ttl sc rng
      = (Inr (Printed ''No data available''), rng) \<and>
    graph_create_animation L trg ival rep layout rng
      = (Printed ''No snapshots available'', rng) \<and>
    tree_display_snapshot LT trt stp hp layout ttl rng
      = (Inr (Printed ''No data available''), rng) \<and>
    tree_create_animation trt ival rep layout = Printed ''No snapshots available''"
  using assms
  by (simp add: get_snapshot_def list_display_snapshot_def stack_display_snapshot_def
      queue_display_snapshot_def dict_display_snapshot_def graph_display_snapshot_def
      tree_display_snapshot_def create_animation_def list_create_animation_def
      stack_create_animation_def queue_create_animation_def dict_create_animation_def
      graph_create_animation_def tree_create_animation_def)

theorem empty_store_no_data_witness:
  "snapshots (new_tracer :: (int list, int) tracer) = [] \<and>
   snapshots (new_tracer :: ((string \<times> int) list, int) tracer) = [] \<and>
   snapshots (new_tracer :: (int graph_data, int) tracer) = [] \<and>
   snapshots (new_tracer :: (pyval, int) tracer) = [] \<and>
   list_display_snapshot str_int (new_tracer :: (int list, int) tracer) (- 1) None None None None True
     = Inr (Printed ''No data available'') \<and>
   list_create_animation (new_tracer :: (int list, int) tracer) 1000 False True
     = Printed ''No snapshots available'' \<and>
   stack_display_snapshot str_int (new_tracer :: (int list, int) tracer) (- 1) True None
     = Inr (Printed ''No data available'') \<and>
   stack_create_animation (new_tracer :: (int list, int) tracer) 1000 False
     = Printed ''No snapshots available'' \<and>
   queue_display_snapshot str_int (new_tracer :: (int list, int) tracer) (- 1) True True None
     = Inr (Printed ''No data available'') \<and>
   queue_create_animation (new_tracer :: (int list, int) tracer) 1000 False True
     = Printed ''No snapshots available'' \<and>
   dict_display_snapshot id str_int (new_tracer :: ((string \<times> int) list, int) tracer) (- 1)
       None None None
     = Inr (Printed ''No data available'') \<and>
   dict_create_animation (new_tracer :: ((string \<times> int) list, int) tracer) 1000 False
     = Printed ''No snapshots available'' \<and>
   graph_display_snapshot counting_layouts (new_tracer :: (int graph_data, int) tracer) (- 1)
       None None ''spring'' None True 0
     = (Inr (Printed ''No data available''), 0) \<and>
   graph_create_animation counting_layouts (new_tracer :: (int graph_data, int) tracer)
       1000 False ''spring'' 0
     = (Printed ''No snapshots available'', 0) \<and>
   tree_display_snapshot counting_layouts (new_tracer :: (pyval, int) tracer) (- 1) None
       ''spring'' None 0
     = (Inr (Printed ''No data available''), 0) \<and>
   tree_create_animation (new_tracer :: (pyval, int) tracer) 1000 False ''spring''
     = Printed ''No snapshots available''"
proof -
  have e: "snapshots (new_tracer :: ('s, int) tracer) = []" for dummy :: "'s"
    by (simp add: new_tracer_def)
  from empty_store_no_data [OF e e e e, of str_int "- 1" None None None None True 1000 False True
      True True id str_int None None counting_layouts None None "''spring''" 0
      counting_layouts None]
  show ?thesis by (simp add: e)
qed








lemma triple_not_pair: "triple_tuple t \<noteq> pair_tuple e"
  by (cases t, cases e) (simp add: triple_tuple_def pair_tuple_def)

text \<open>On a multigraph no edge is ever highlighted.\<close>

lemma multigraph_edges_default_colour:
  "edge_colors he (IsMultiGraph M) = replicate (length (medges M)) ''#666666''"
proof (cases he)
  case None
  then show ?thesis by (simp add: edge_colors_def)
next
  case (Some hs)
  have n: "triple_tuple t \<notin> set (map (\<lambda>(u, v). pair_tuple (u, v)) hs)
                  \<union> set (map (\<lambda>(u, v). pair_tuple (v, u)) hs)" for t :: "'a \<times> 'a \<times> int"
    using triple_not_pair [of t] by (auto split: prod.splits)
  have "map (\<lambda>edge. if edge \<in> set (map (\<lambda>(u, v). pair_tuple (u, v)) hs)
                  \<union> set (map (\<lambda>(u, v). pair_tuple (v, u)) hs) then ''red'' else ''#666666'')
          (map triple_tuple (medges M)) = replicate (length (medges M)) ''#666666''"
    unfolding map_map comp_def if_not_P [OF n] by (simp add: map_replicate_const)
  with Some show ?thesis by (simp add: edge_colors_def Let_def)
qed

lemma range_outlines_drop:
  "\<not> (0 \<le> s \<and> s < int L) \<or> \<not> (0 \<le> e \<and> e < int L) \<Longrightarrow>
   range_outlines (Some (rs1 @ (s, e) # rs2)) L = range_outlines (Some (rs1 @ rs2)) L"
  by (auto simp: range_outlines_def range_outline_def)

lemma range_outlines_single:
  "\<not> (0 \<le> s \<and> s < int L) \<or> \<not> (0 \<le> e \<and> e < int L) \<Longrightarrow>
   range_outlines (Some [(s, e)]) L = range_outlines None L"
  by (auto simp: range_outlines_def range_outline_def)

text \<open>
  C8. A highlight range with an endpoint outside \<open>[0, L)\<close> draws nothing: the call gives
  the same result as the call without that range (and a call with only that range the
  same as a call with no range argument), and the frame consists of the cells, coloured
  by the highlight indices and values, followed by the outlines of the other ranges.
\<close>

theorem out_of_bounds_range_ignored:
  assumes snap: "get_snapshot tr stp = Inr (Some data, md)"
    and out: "\<not> (0 \<le> s \<and> s < int (length data)) \<or> \<not> (0 \<le> e \<and> e < int (length data))"
  shows "list_display_snapshot str tr stp hi hv (Some (rs1 @ (s, e) # rs2)) ttl si
         = list_display_snapshot str tr stp hi hv (Some (rs1 @ rs2)) ttl si \<and>
         list_display_snapshot str tr stp hi hv (Some [(s, e)]) ttl si
         = list_display_snapshot str tr stp hi hv None ttl si \<and>
         (\<forall>F. list_display_snapshot str tr stp hi hv (Some (rs1 @ (s, e) # rs2)) ttl si
                = Inr (Shown F)
            \<longrightarrow> shapes F = list_cells str hi hv si data
                            @ range_outlines (Some (rs1 @ rs2)) (length data))"
  using snap range_outlines_drop [OF out] range_outlines_single [OF out]
  by (auto simp: list_display_snapshot_def blank_def split: sum.splits)

theorem out_of_bounds_range_ignored_witness:
  "get_snapshot list_tracer 0 = Inr (Some [10, 20, 30, 40, 50], start_meta0) \<and>
   \<not> (10::int) < int (length [10, 20, 30, 40, 50 :: int]) \<and>
   list_display_snapshot str_int list_tracer 0 (Some [1]) (Some [30]) (Some [(2, 10)]) None False
     = list_display_snapshot str_int list_tracer 0 (Some [1]) (Some [30]) None None False \<and>
   list_display_snapshot str_int list_tracer 0 (Some [1]) (Some [30]) (Some [(2, 10)]) None False
     = Inr (Shown \<lparr>shapes =
          [Rectangle 0 0 (1 / 5) (1 / 2) ''#f0f0f0'', Text (1 / 10) (1 / 4) ''10'',
           Rectangle (1 / 5) 0 (1 / 5) (1 / 2) ''#ffcf75'', Text (3 / 10) (1 / 4) ''20'',
           Rectangle (2 / 5) 0 (1 / 5) (1 / 2) ''#8dc7f3'', Text (1 / 2) (1 / 4) ''30'',
           Rectangle (3 / 5) 0 (1 / 5) (1 / 2) ''#f0f0f0'', Text (7 / 10) (1 / 4) ''40'',
           Rectangle (4 / 5) 0 (1 / 5) (1 / 2) ''#f0f0f0'', Text (9 / 10) (1 / 4) ''50''],
          drawing = None, title = Some ''Step 0: start'', xlim = Some (0, 1),
          ylim = Some (- (1 / 5), 7 / 10), code_panel = None\<rparr>) \<and>
   list_cells str_int (Some [1]) (Some [30]) False [10, 20, 30, 40, 50]
       @ range_outlines (Some []) (length [10, 20, 30, 40, 50 :: int])
     = [Rectangle 0 0 (1 / 5) (1 / 2) ''#f0f0f0'', Text (1 / 10) (1 / 4) ''10'',
        Rectangle (1 / 5) 0 (1 / 5) (1 / 2) ''#ffcf75'', Text (3 / 10) (1 / 4) ''20'',
        Rectangle (2 / 5) 0 (1 / 5) (1 / 2) ''#8dc7f3'', Text (1 / 2) (1 / 4) ''30'',
        Rectangle (3 / 5) 0 (1 / 5) (1 / 2) ''#f0f0f0'', Text (7 / 10) (1 / 4) ''40'',
        Rectangle (4 / 5) 0 (1 / 5) (1 / 2) ''#f0f0f0'', Text (9 / 10) (1 / 4) ''50'']"
  (is "?h1 \<and> ?h2 \<and> ?c1 \<and> ?c2 \<and> ?c3")
proof -
  have h1: ?h1
    by (simp add: get_snapshot_def list_tracer_def capture_def new_tracer_def start_meta0_def)
  have h2: ?h2 by simp
  then have h2': "\<not> (0 \<le> (2::int) \<and> 2 < int (length [10, 20, 30, 40, 50 :: int])) \<or>
      \<not> (0 \<le> (10::int) \<and> 10 < int (length [10, 20, 30, 40, 50 :: int]))"
    by simp
  have c2: ?c2 by code_simp
  note inst = out_of_bounds_range_ignored
    [OF h1 h2', of str_int "Some [1]" "Some [30]" "[]" "[]" None False]
  from inst have c1: ?c1 by blast
  from inst c2 have c3: ?c3 by simp
  from h1 h2 c1 c2 c3 show ?thesis by blast
qed

section \<open>Properties of the trace store\<close>

lemma run_append: "run (as @ bs) st = run bs (run as st)"
  by (induction as arbitrary: st) simp_all

text \<open>Running a script only appends to the store, one entry per capture.\<close>

lemma run_extends:
  "\<exists>xs ms. snapshots (snd (run as st)) = snapshots (snd st) @ xs \<and> length xs = captures as \<and>
           metadata (snd (run as st)) = metadata (snd st) @ ms \<and> length ms = captures as"
proof (induction as arbitrary: st)
  case Nil
  show ?case by (simp add: captures_def)
next
  case (Cons a as)
  obtain h tr where st: "st = (h, tr)" by (cases st)
  from Cons [of "perform a st"] obtain xs ms where
    x: "snapshots (snd (run as (perform a st))) = snapshots (snd (perform a st)) @ xs"
       "length xs = captures as"
       "metadata (snd (run as (perform a st))) = metadata (snd (perform a st)) @ ms"
       "length ms = captures as"
    by blast
  show ?case
  proof (cases a)
    case (Capture x md)
    with x st show ?thesis
      by (simp add: capture_def captures_def)
  next
    case (Mutate f)
    with x st show ?thesis
      by (simp add: captures_def)
  qed
qed

text \<open>
  C3. Take any script of captures and in-place mutations run on a fresh store, and any
  capture in it, say the one after the prefix \<open>pre\<close>, of the structure at address \<open>a\<close>.
  At the end the store holds as many snapshots as the script has captures, and
  \<^verbatim>\<open>get_snapshot\<close> at the index of that capture (the number of captures before it) returns
  the content the structure had when it was captured, with the caller's metadata and that
  index as step, whatever the rest of the script did to the live structures.
\<close>

theorem snapshot_is_captured_copy:
  fixes h0 :: "'s heap" and pre post :: "('s, 'n) action list"
  shows "length (snapshots (snd (run (pre @ Capture a md # post) (h0, new_tracer))))
       = captures (pre @ Capture a md # post) \<and>
     get_snapshot (snd (run (pre @ Capture a md # post) (h0, new_tracer))) (int (captures pre))
       = Inr (Some (fst (run pre (h0, new_tracer)) a), md\<lparr>step := Some (captures pre)\<rparr>)"
proof -
  let ?s0 = "(h0, new_tracer :: ('s, 'n) tracer)"
  obtain h1 tr1 where s1: "run pre ?s0 = (h1, tr1)" by (cases "run pre ?s0")
  from run_extends [of pre ?s0] s1 have len1:
    "length (snapshots tr1) = captures pre" "length (metadata tr1) = captures pre"
    by (auto simp: new_tracer_def)
  let ?s2 = "(h1, capture tr1 (h1 a) md)"
  have fin: "run (pre @ Capture a md # post) ?s0 = run post ?s2"
    by (simp add: run_append s1)
  from run_extends [of post ?s2] obtain xs ms where
    ext: "snapshots (snd (run post ?s2)) = (snapshots tr1 @ [h1 a]) @ xs"
         "length xs = captures post"
         "metadata (snd (run post ?s2))
            = (metadata tr1 @ [md\<lparr>step := Some (length (snapshots tr1))\<rparr>]) @ ms"
    by (auto simp: capture_def)
  have cap: "captures (pre @ Capture a md # post) = Suc (captures pre + captures post)"
    by (simp add: captures_def)
  show ?thesis
    unfolding fin cap
    using ext len1 s1
    by (simp add: get_snapshot_def nth_append)
qed

section \<open>Titles and layouts of frames\<close>

lemma snapshot_title_expected:
  "step md = Some n \<Longrightarrow> snapshot_title ttl md = Inr (expected_title ttl (description md) n)"
  by (auto simp: snapshot_title_def frame_title_def step_of_def expected_title_def
      split: option.splits)

lemma frame_title_expected:
  "step md = Some n \<Longrightarrow> frame_title md = Inr (expected_title None (description md) n)"
  by (auto simp: frame_title_def step_of_def expected_title_def split: option.splits)

lemma built_nodes_not_none: "tree_to_networkx t = Inr T \<Longrightarrow> nodes T \<noteq> [] \<Longrightarrow> t \<noteq> PNone"
  by (auto simp: tree_to_networkx_def py_hasattr_def is_dict_def empty_graph_def)

text \<open>
  C4. With a step \<open>n\<close> in the metadata: \<^verbatim>\<open>display_snapshot\<close> of every variant, whenever it
  draws the structure (any list or dictionary; a non-empty stack or queue; a graph of any
  \<^verbatim>\<open>networkx\<close> class with at least one node; a tree whose graph has at least one node), sets
  the caller's title when it is given and not empty, else \<^verbatim>\<open>Step n: description\<close> when the
  metadata has a non-empty description, else \<^verbatim>\<open>Step n\<close>; the animation frames of the list,
  queue, dictionary, graph and tree variants, which take no title, follow the last two
  cases under the same conditions (the graph frame with its cached layout). A frame of
  the graph or the tree variant, still or animated, that shows only the text
  \<^verbatim>\<open>Empty Graph\<close>, \<^verbatim>\<open>Empty Tree\<close> or \<^verbatim>\<open>Unsupported Graph Type\<close> has no title, whatever the
  caller's title and the metadata are. The frames of the stack animation are not covered.
\<close>

theorem title_precedence:
  fixes trl :: "('a list, 'n) tracer" and trd :: "(('k \<times> 'v) list, 'n) tracer"
    and trg trge trgu :: "('n graph_data, 'n) tracer" and trt trte :: "(pyval, 'n) tracer"
  assumes st: "step md = Some n"
  shows
   "(get_snapshot trl stp = Inr (Some xs, md) \<longrightarrow>
       (\<exists>F. list_display_snapshot str trl stp hi hv hr ttl si = Inr (Shown F) \<and>
            title F = Some (expected_title ttl (description md) n))) \<and>
    (get_snapshot trl stp = Inr (Some xs, md) \<and> xs \<noteq> [] \<longrightarrow>
       (\<exists>F. stack_display_snapshot str trl stp ht ttl = Inr (Shown F) \<and>
            title F = Some (expected_title ttl (description md) n))) \<and>
    (get_snapshot trl stp = Inr (Some xs, md) \<and> xs \<noteq> [] \<longrightarrow>
       (\<exists>F. queue_display_snapshot str trl stp hfr sc ttl = Inr (Shown F) \<and>
            title F = Some (expected_title ttl (description md) n))) \<and>
    (get_snapshot trd stp = Inr (Some items, md) \<longrightarrow>
       (\<exists>F. dict_display_snapshot strk strv trd stp hk hvs ttl = Inr (Shown F) \<and>
            title F = Some (expected_title ttl (description md) n))) \<and>
    (get_snapshot trg stp = Inr (Some G, md) \<and> is_graph G \<and> graph_nodes G \<noteq> [] \<longrightarrow>
       (\<exists>F. fst (graph_display_snapshot L trg stp hn he layout ttl sc rng) = Inr (Shown F) \<and>
            title F = Some (expected_title ttl (description md) n))) \<and>
    (get_snapshot trt stp = Inr (Some t, md) \<and> tree_to_networkx t = Inr T \<and> nodes T \<noteq> [] \<longrightarrow>
       (\<exists>F. fst (tree_display_snapshot LT trt stp hp layout ttl rng) = Inr (Shown F) \<and>
            title F = Some (expected_title ttl (description md) n))) \<and>
    (frame_data trl k = Inr (xs, md) \<longrightarrow>
       (\<exists>F. list_update str trl si k = Inr F \<and>
            title F = Some (expected_title None (description md) n))) \<and>
    (frame_data trl k = Inr (xs, md) \<and> xs \<noteq> [] \<longrightarrow>
       (\<exists>F. queue_update str trl sc k = Inr F \<and>
            title F = Some (expected_title None (description md) n))) \<and>
    (frame_data trd k = Inr (items, md) \<longrightarrow>
       (\<exists>F. dict_update strk strv trd k = Inr F \<and>
            title F = Some (expected_title None (description md) n))) \<and>
    (frame_data trg k = Inr (G, md) \<and> is_graph G \<and> graph_nodes G \<noteq> [] \<and>
       k < length pfs \<and> pfs ! k = Some p \<longrightarrow>
       (\<exists>F. fst (graph_update trg pfs k rng) = Inr F \<and>
            title F = Some (expected_title None (description md) n))) \<and>
    (frame_data trt k = Inr (t, md) \<and> tree_to_networkx t = Inr T \<and> nodes T \<noteq> [] \<longrightarrow>
       (\<exists>F. fst (tree_update LT trt layout k rng) = Inr F \<and>
            title F = Some (expected_title None (description md) n))) \<and>
    (get_snapshot trge se = Inr (Some E, mde) \<and> is_graph E \<and> graph_nodes E = [] \<longrightarrow>
       (\<exists>F. fst (graph_display_snapshot L trge se hn he layout ttl sc rng) = Inr (Shown F) \<and>
            shapes F = [Text (1/2) (1/2) ''Empty Graph''] \<and> drawing F = None \<and>
            title F = None)) \<and>
    (get_snapshot trte se = Inr (Some te, mde) \<and> te \<noteq> PNone \<and>
       tree_to_networkx te = Inr TE \<and> nodes TE = [] \<longrightarrow>
       (\<exists>F. fst (tree_display_snapshot LT trte se hp layout ttl rng) = Inr (Shown F) \<and>
            shapes F = [Text (1/2) (1/2) ''Empty Tree''] \<and> drawing F = None \<and>
            title F = None)) \<and>
    (frame_data trge ke = Inr (E, mde) \<and> is_graph E \<and> graph_nodes E = [] \<and>
       ke < length pfs \<and> pfs ! ke = Some p \<longrightarrow>
       (\<exists>F. fst (graph_update trge pfs ke rng) = Inr F \<and>
            shapes F = [Text (1/2) (1/2) ''Empty Graph''] \<and> drawing F = None \<and>
            title F = None)) \<and>
    (frame_data trgu ku = Inr (U, mdu) \<and> ku < length pfu \<and>
       (U = NotGraph \<or> pfu ! ku = None) \<longrightarrow>
       (\<exists>F. fst (graph_update trgu pfu ku rng) = Inr F \<and>
            shapes F = [Text (1/2) (1/2) ''Unsupported Graph Type''] \<and> drawing F = None \<and>
            title F = None)) \<and>
    (frame_data trte ke = Inr (te, mde) \<and> tree_to_networkx te = Inr TE \<and> nodes TE = [] \<longrightarrow>
       (\<exists>F. fst (tree_update LT trte layout ke rng) = Inr F \<and>
            shapes F = [Text (1/2) (1/2) ''Empty Tree''] \<and> drawing F = None \<and>
            title F = None))"
proof -
  note s = snapshot_title_expected [OF st] frame_title_expected [OF st]
  note tnone = built_nodes_not_none
  have 1: "get_snapshot trl stp = Inr (Some xs, md) \<longrightarrow>
       (\<exists>F. list_display_snapshot str trl stp hi hv hr ttl si = Inr (Shown F) \<and>
            title F = Some (expected_title ttl (description md) n))"
    by (simp add: list_display_snapshot_def s blank_def)
  have 2: "get_snapshot trl stp = Inr (Some xs, md) \<and> xs \<noteq> [] \<longrightarrow>
       (\<exists>F. stack_display_snapshot str trl stp ht ttl = Inr (Shown F) \<and>
            title F = Some (expected_title ttl (description md) n))"
    by (simp add: stack_display_snapshot_def s blank_def Let_def)
  have 3: "get_snapshot trl stp = Inr (Some xs, md) \<and> xs \<noteq> [] \<longrightarrow>
       (\<exists>F. queue_display_snapshot str trl stp hfr sc ttl = Inr (Shown F) \<and>
            title F = Some (expected_title ttl (description md) n))"
    by (simp add: queue_display_snapshot_def s blank_def Let_def)
  have 4: "get_snapshot trd stp = Inr (Some items, md) \<longrightarrow>
       (\<exists>F. dict_display_snapshot strk strv trd stp hk hvs ttl = Inr (Shown F) \<and>
            title F = Some (expected_title ttl (description md) n))"
    by (simp add: dict_display_snapshot_def s blank_def)
  have 5: "get_snapshot trg stp = Inr (Some G, md) \<and> is_graph G \<and> graph_nodes G \<noteq> [] \<longrightarrow>
       (\<exists>F. fst (graph_display_snapshot L trg stp hn he layout ttl sc rng) = Inr (Shown F) \<and>
            title F = Some (expected_title ttl (description md) n))"
    by (simp add: graph_display_snapshot_def s blank_def split: prod.splits)
  have 6: "get_snapshot trt stp = Inr (Some t, md) \<and> tree_to_networkx t = Inr T \<and> nodes T \<noteq> [] \<longrightarrow>
       (\<exists>F. fst (tree_display_snapshot LT trt stp hp layout ttl rng) = Inr (Shown F) \<and>
            title F = Some (expected_title ttl (description md) n))"
    using tnone by (simp add: tree_display_snapshot_def s blank_def split: prod.splits)
  have 7: "frame_data trl k = Inr (xs, md) \<longrightarrow>
       (\<exists>F. list_update str trl si k = Inr F \<and>
            title F = Some (expected_title None (description md) n))"
    by (simp add: list_update_def s blank_def)
  have 8: "frame_data trl k = Inr (xs, md) \<and> xs \<noteq> [] \<longrightarrow>
       (\<exists>F. queue_update str trl sc k = Inr F \<and>
            title F = Some (expected_title None (description md) n))"
    by (simp add: queue_update_def s blank_def Let_def)
  have 9: "frame_data trd k = Inr (items, md) \<longrightarrow>
       (\<exists>F. dict_update strk strv trd k = Inr F \<and>
            title F = Some (expected_title None (description md) n))"
    by (simp add: dict_update_def s blank_def)
  have 10: "frame_data trg k = Inr (G, md) \<and> is_graph G \<and> graph_nodes G \<noteq> [] \<and>
       k < length pfs \<and> pfs ! k = Some p \<longrightarrow>
       (\<exists>F. fst (graph_update trg pfs k rng) = Inr F \<and>
            title F = Some (expected_title None (description md) n))"
    by (simp add: graph_update_def s blank_def)
  have 11: "frame_data trt k = Inr (t, md) \<and> tree_to_networkx t = Inr T \<and> nodes T \<noteq> [] \<longrightarrow>
       (\<exists>F. fst (tree_update LT trt layout k rng) = Inr F \<and>
            title F = Some (expected_title None (description md) n))"
    by (simp add: tree_update_def s blank_def split: prod.splits)
  have 12: "get_snapshot trge se = Inr (Some E, mde) \<and> is_graph E \<and> graph_nodes E = [] \<longrightarrow>
       (\<exists>F. fst (graph_display_snapshot L trge se hn he layout ttl sc rng) = Inr (Shown F) \<and>
            shapes F = [Text (1/2) (1/2) ''Empty Graph''] \<and> drawing F = None \<and>
            title F = None)"
    by (simp add: graph_display_snapshot_def blank_def)
  have 13: "get_snapshot trte se = Inr (Some te, mde) \<and> te \<noteq> PNone \<and>
       tree_to_networkx te = Inr TE \<and> nodes TE = [] \<longrightarrow>
       (\<exists>F. fst (tree_display_snapshot LT trte se hp layout ttl rng) = Inr (Shown F) \<and>
            shapes F = [Text (1/2) (1/2) ''Empty Tree''] \<and> drawing F = None \<and>
            title F = None)"
    by (simp add: tree_display_snapshot_def blank_def)
  have 14: "frame_data trge ke = Inr (E, mde) \<and> is_graph E \<and> graph_nodes E = [] \<and>
       ke < length pfs \<and> pfs ! ke = Some p \<longrightarrow>
       (\<exists>F. fst (graph_update trge pfs ke rng) = Inr F \<and>
            shapes F = [Text (1/2) (1/2) ''Empty Graph''] \<and> drawing F = None \<and>
            title F = None)"
    by (simp add: graph_update_def blank_def)
  have 15: "frame_data trgu ku = Inr (U, mdu) \<and> ku < length pfu \<and>
       (U = NotGraph \<or> pfu ! ku = None) \<longrightarrow>
       (\<exists>F. fst (graph_update trgu pfu ku rng) = Inr F \<and>
            shapes F = [Text (1/2) (1/2) ''Unsupported Graph Type''] \<and> drawing F = None \<and>
            title F = None)"
    by (auto simp: graph_update_def blank_def unsupported_frame_def split: option.splits)
  have 16: "frame_data trte ke = Inr (te, mde) \<and> tree_to_networkx te = Inr TE \<and> nodes TE = [] \<longrightarrow>
       (\<exists>F. fst (tree_update LT trte layout ke rng) = Inr F \<and>
            shapes F = [Text (1/2) (1/2) ''Empty Tree''] \<and> drawing F = None \<and>
            title F = None)"
    by (simp add: tree_update_def blank_def)
  from 1 2 3 4 5 6 7 8 9 10 11 12 13 14 15 16 show ?thesis by blast
qed

theorem title_precedence_witness:
  "step start_meta0 = Some 0 \<and>
   get_snapshot list_tracer 0 = Inr (Some [10, 20, 30, 40, 50], start_meta0) \<and>
   [10, 20, 30, 40, 50 :: int] \<noteq> [] \<and>
   get_snapshot dict_tracer 0 = Inr (Some [(''age'', 30)], start_meta0) \<and>
   get_snapshot graph_tracer 0 = Inr (Some (IsGraph graph_21), start_meta0) \<and>
   is_graph (IsGraph graph_21) \<and> graph_nodes (IsGraph graph_21) \<noteq> [] \<and>
   get_snapshot tree_tracer 0 = Inr (Some tree_1234, start_meta0) \<and>
   tree_to_networkx tree_1234 = Inr preorder_1234 \<and>
   nodes preorder_1234 \<noteq> [] \<and>
   frame_data list_tracer 0 = Inr ([10, 20, 30, 40, 50], start_meta0) \<and>
   frame_data dict_tracer 0 = Inr ([(''age'', 30)], start_meta0) \<and>
   frame_data graph_tracer 0 = Inr (IsGraph graph_21, start_meta0) \<and>
   0 < length [Some (0::nat)] \<and> [Some (0::nat)] ! 0 = Some 0 \<and>
   frame_data tree_tracer 0 = Inr (tree_1234, start_meta0) \<and>
   get_snapshot empty_graph_tracer 0 = Inr (Some (IsGraph \<lparr>nodes = [], edges = []\<rparr>), start_meta0) \<and>
   is_graph (IsGraph \<lparr>nodes = [], edges = []\<rparr> :: int graph_data) \<and>
   graph_nodes (IsGraph \<lparr>nodes = [], edges = []\<rparr> :: int graph_data) = [] \<and>
   frame_data empty_graph_tracer 0 = Inr (IsGraph \<lparr>nodes = [], edges = []\<rparr>, start_meta0) \<and>
   get_snapshot empty_tree_tracer 0 = Inr (Some (PDict []), start_meta0) \<and>
   PDict [] \<noteq> PNone \<and> tree_to_networkx (PDict []) = Inr empty_graph \<and>
   nodes empty_graph = [] \<and>
   frame_data empty_tree_tracer 0 = Inr (PDict [], start_meta0) \<and>
   frame_data no_graph_tracer 0 = Inr (NotGraph, start_meta0) \<and>
   0 < length [None :: nat option] \<and>
   (\<exists>F. list_display_snapshot str_int list_tracer 0 None None None (Some ''Final'') True
          = Inr (Shown F) \<and> title F = Some ''Final'') \<and>
   (\<exists>F. stack_display_snapshot str_int list_tracer 0 True (Some ''Final'')
          = Inr (Shown F) \<and> title F = Some ''Final'') \<and>
   (\<exists>F. queue_display_snapshot str_int list_tracer 0 True True (Some ''Final'')
          = Inr (Shown F) \<and> title F = Some ''Final'') \<and>
   (\<exists>F. dict_display_snapshot id str_int dict_tracer 0 None None (Some ''Final'')
          = Inr (Shown F) \<and> title F = Some ''Final'') \<and>
   (\<exists>F. fst (graph_display_snapshot counting_layouts graph_tracer 0 None None ''spring''
               (Some ''Final'') True 0)
          = Inr (Shown F) \<and> title F = Some ''Final'') \<and>
   (\<exists>F. fst (tree_display_snapshot counting_layouts tree_tracer 0 None ''spring''
               (Some ''Final'') 0)
          = Inr (Shown F) \<and> title F = Some ''Final'') \<and>
   (\<exists>F. list_update str_int list_tracer True 0 = Inr F \<and> title F = Some ''Step 0: start'') \<and>
   (\<exists>F. queue_update str_int list_tracer True 0 = Inr F \<and> title F = Some ''Step 0: start'') \<and>
   (\<exists>F. dict_update id str_int dict_tracer 0 = Inr F \<and> title F = Some ''Step 0: start'') \<and>
   (\<exists>F. fst (graph_update graph_tracer [Some (0::nat)] 0 (0::nat)) = Inr F \<and>
        title F = Some ''Step 0: start'') \<and>
   (\<exists>F. fst (tree_update counting_layouts tree_tracer ''spring'' 0 0) = Inr F \<and>
        title F = Some ''Step 0: start'') \<and>
   (\<exists>F. fst (graph_display_snapshot counting_layouts empty_graph_tracer 0 None None ''spring''
               (Some ''Final'') True 0) = Inr (Shown F) \<and>
        shapes F = [Text (1/2) (1/2) ''Empty Graph''] \<and> drawing F = None \<and> title F = None) \<and>
   (\<exists>F. fst (tree_display_snapshot counting_layouts empty_tree_tracer 0 None ''spring''
               (Some ''Final'') 0) = Inr (Shown F) \<and>
        shapes F = [Text (1/2) (1/2) ''Empty Tree''] \<and> drawing F = None \<and> title F = None) \<and>
   (\<exists>F. fst (graph_update empty_graph_tracer [Some (0::nat)] 0 (0::nat)) = Inr F \<and>
        shapes F = [Text (1/2) (1/2) ''Empty Graph''] \<and> drawing F = None \<and> title F = None) \<and>
   (\<exists>F. fst (graph_update no_graph_tracer [None :: nat option] 0 (0::nat)) = Inr F \<and>
        shapes F = [Text (1/2) (1/2) ''Unsupported Graph Type''] \<and> drawing F = None \<and>
        title F = None) \<and>
   (\<exists>F. fst (tree_update counting_layouts empty_tree_tracer ''spring'' 0 0) = Inr F \<and>
        shapes F = [Text (1/2) (1/2) ''Empty Tree''] \<and> drawing F = None \<and> title F = None)"
proof -
  have h: "step start_meta0 = Some 0" by code_simp
  have g: "get_snapshot list_tracer 0 = Inr (Some [10, 20, 30, 40, 50], start_meta0)"
    "get_snapshot dict_tracer 0 = Inr (Some [(''age'', 30)], start_meta0)"
    "get_snapshot graph_tracer 0 = Inr (Some (IsGraph graph_21), start_meta0)"
    "get_snapshot tree_tracer 0 = Inr (Some tree_1234, start_meta0)"
    "get_snapshot empty_graph_tracer 0 = Inr (Some (IsGraph \<lparr>nodes = [], edges = []\<rparr>), start_meta0)"
    "get_snapshot empty_tree_tracer 0 = Inr (Some (PDict []), start_meta0)"
    by (simp_all add: get_snapshot_def list_tracer_def dict_tracer_def graph_tracer_def
        tree_tracer_def empty_graph_tracer_def empty_tree_tracer_def
        capture_def new_tracer_def start_meta0_def)
  have f: "frame_data list_tracer 0 = Inr ([10, 20, 30, 40, 50], start_meta0)"
    "frame_data dict_tracer 0 = Inr ([(''age'', 30)], start_meta0)"
    "frame_data graph_tracer 0 = Inr (IsGraph graph_21, start_meta0)"
    "frame_data tree_tracer 0 = Inr (tree_1234, start_meta0)"
    "frame_data empty_graph_tracer 0 = Inr (IsGraph \<lparr>nodes = [], edges = []\<rparr>, start_meta0)"
    "frame_data empty_tree_tracer 0 = Inr (PDict [], start_meta0)"
    "frame_data no_graph_tracer 0 = Inr (NotGraph, start_meta0)"
    by (simp_all add: frame_data_def list_tracer_def dict_tracer_def graph_tracer_def
        tree_tracer_def empty_graph_tracer_def empty_tree_tracer_def no_graph_tracer_def
        capture_def new_tracer_def start_meta0_def)
  have t: "tree_to_networkx tree_1234 = Inr preorder_1234"
    "tree_to_networkx (PDict []) = Inr empty_graph"
    by code_simp+
  have n: "graph_nodes (IsGraph graph_21) \<noteq> []" "nodes preorder_1234 \<noteq> []"
    "graph_nodes (IsGraph \<lparr>nodes = [], edges = []\<rparr>) = []" "nodes empty_graph = []"
    "node_ids graph_21 \<noteq> []"
    "node_ids \<lparr>nodes = [], edges = []\<rparr> = []"
    by (simp_all add: graph_21_def preorder_1234_def empty_graph_def
        node_ids_def)
  have e: "expected_title (Some ''Final'') (description start_meta0) 0 = ''Final''"
    "expected_title None (description start_meta0) 0 = ''Step 0: start''"
    by code_simp+
  from title_precedence [OF h, where trl = list_tracer and stp = 0
      and xs = "[10, 20, 30, 40, 50]" and str = str_int and hi = None and hv = None
      and hr = None and ttl = "Some ''Final''" and si = True and ht = True and hfr = True
      and sc = True and trd = dict_tracer and items = "[(''age'', 30)]" and strk = id
      and strv = str_int and hk = None and hvs = None and trg = graph_tracer
      and G = "IsGraph graph_21" and L = counting_layouts and hn = None and he = None
      and layout = "''spring''" and rng = 0 and trt = tree_tracer and t = tree_1234
      and T = preorder_1234 and LT = counting_layouts and hp = None and k = 0
      and pfs = "[Some 0]" and p = 0 and trge = empty_graph_tracer and se = 0
      and E = "IsGraph \<lparr>nodes = [], edges = []\<rparr>" and mde = start_meta0
      and trte = empty_tree_tracer
      and te = "PDict []" and TE = empty_graph and ke = 0 and trgu = no_graph_tracer
      and ku = 0 and U = NotGraph and mdu = start_meta0 and pfu = "[None]"]
  show ?thesis
    by (simp add: h g f t n e)
qed

text \<open>
  A graph without nodes is displayed as the text \<^verbatim>\<open>Empty Graph\<close>; the caller's title is not
  set on that frame.
\<close>

theorem empty_graph_frame_has_no_title:
  "map_sum id (map_outcome title)
     (fst (graph_display_snapshot counting_layouts empty_graph_tracer 0 None None ''spring''
            (Some ''Graph'') False 0))
   = Inr (Shown None)"
  by code_simp

text \<open>
  The stack animation formats the description unconditionally: without a description the
  title of its frame is \<^verbatim>\<open>Step 0: \<close> and not \<^verbatim>\<open>Step 0\<close>.
\<close>

lemma stack_animation_title_without_description:
  "map_sum id title (stack_update str_int plain_stack_tracer 0) = Inr (Some ''Step 0: '')"
  by code_simp

text \<open>
  C2. The tree animation computes the layout inside \<^verbatim>\<open>update\<close>, on every call. With a
  force-directed layout that depends on the state of the random generator, rendering
  frame 0 of the same store twice in a row gives different node positions: the first
  call sees generator state 0 and leaves 1, the second sees 1.
\<close>

theorem tree_animation_layout_recomputed:
  "map_sum id (map_option pos \<circ> drawing) (fst (tree_update counting_layouts tree_tracer ''spring'' 0 0))
     = Inr (Some 0) \<and>
   snd (tree_update counting_layouts tree_tracer ''spring'' 0 0) = 1 \<and>
   map_sum id (map_option pos \<circ> drawing) (fst (tree_update counting_layouts tree_tracer ''spring'' 0 1))
     = Inr (Some 1)"
  by code_simp

text \<open>
  The graph animation does cache: its \<^verbatim>\<open>update\<close> reads the positions computed when the
  animation was created, one entry per snapshot, and does not touch the generator.
\<close>

lemma precompute_length: "length (fst (precompute_layouts L layout ds rng)) = length ds"
  by (induction L layout ds rng rule: precompute_layouts.induct) (auto split: prod.splits)

lemma precompute_some:
  "k < length ds \<Longrightarrow> is_graph (ds ! k) \<Longrightarrow>
   \<exists>p. fst (precompute_layouts L layout ds rng) ! k = Some p"
proof (induction L layout ds rng arbitrary: k rule: precompute_layouts.induct)
  case (1 L layout rng)
  then show ?case by simp
next
  case (2 L layout G ds rng)
  show ?case
  proof (cases k)
    case 0
    with 2(3,4) show ?thesis by (simp split: prod.splits)
  next
    case (Suc j)
    with 2 show ?thesis by (auto split: prod.splits)
  qed
qed

lemma graph_animation_layout_cached:
  "fst (graph_update tr pfs k r1) = fst (graph_update tr pfs k r2) \<and>
   snd (graph_update tr pfs k r) = r"
  by (auto simp: graph_update_def Let_def split: sum.splits prod.splits option.splits)

end
